theory Spec2Isabelle
  imports Main "HOL-Library.Word"
begin

section \<open>Slot migration (src/cluster/slot\_migrate.cc): data model\<close>

text \<open>
  The migrator object of \<^verbatim>\<open>slot_migrate.h\<close> is a record; its enums are datatypes.
  Fields of C++ type \<^verbatim>\<open>int\<close> and \<^verbatim>\<open>int16_t\<close> are \<open>int\<close>, with the
  conversions and the 32-bit arithmetic of the source written out where the code
  computes; \<^verbatim>\<open>uint64_t\<close> is \<open>64 word\<close>, \<^verbatim>\<open>uint32_t\<close> is \<open>32 word\<close>.
\<close>

datatype MigrationState = MS_kNone | MS_kStarted | MS_kSuccess | MS_kFailed

datatype SlotMigrationStage = kNone | kStart | kSnapshot | kWAL | kSuccess | kFailed | kClean

datatype KeyMigrationResult = kMigrated | kExpired | kUnderlyingStructEmpty

datatype ThreadState = Uninitialized | Running | Terminated

record SlotMigrationJob =
  job_slot_id :: int
  job_dst_ip :: string
  job_dst_port :: int
  job_max_speed :: int
  job_max_pipeline_size :: int
  job_seq_gap_limit :: int

text \<open>
  What the migrator does to the world outside the object is kept in a log, newest entry
  last: the calls on the condition variable, the store, the clock and the socket.
\<close>

datatype sys_call =
    NotifyOne
  | ReleaseSnapshot "64 word"
  | CloseFd int
  | SleepFor int
  | StdTerminate string
  | SockSend int string
  | ReadResponses int int

record SlotMigrator =
  max_migration_speed :: int
  max_pipeline_size :: int
  seq_gap_limit :: int
  current_stage :: SlotMigrationStage
  thread_state :: ThreadState
  migration_state :: MigrationState
  current_pipeline_size :: int
  last_send_time :: "64 word"
  migration_job :: "SlotMigrationJob option"
  dst_node :: string
  dst_ip :: string
  dst_port :: int
  dst_fd :: int
  forbidden_slot :: int
  migrating_slot :: int
  migrate_failed_slot :: int
  stop_migration :: bool
  slot_snapshot :: "64 word option"
  wal_begin_seq :: "64 word"
  sys_log :: "sys_call list"

text \<open>
  A \<^verbatim>\<open>Status\<close> is \<open>Inr ()\<close> when OK and \<open>Inl (NotOK msg)\<close> otherwise. A C++
  exception that leaves a call is the value \<open>Inl (Thrown what)\<close>: it passes through
  every caller unchanged, up to the thread function, where nothing catches it.
\<close>

datatype failure = NotOK string | Thrown string

type_synonym Status = "failure + unit"

abbreviation Status_OK :: Status where
  "Status_OK \<equiv> Inr ()"

definition IsOK :: "failure + 'a \<Rightarrow> bool" where
  "IsOK s = (case s of Inl _ \<Rightarrow> False | Inr _ \<Rightarrow> True)"

definition kDefaultMaxPipelineSize :: int where
  "kDefaultMaxPipelineSize = 16"

definition kDefaultMaxMigrationSpeed :: int where
  "kDefaultMaxMigrationSpeed = 4096"

definition kDefaultSequenceGapLimit :: int where
  "kDefaultSequenceGapLimit = 10000"

definition kMaxItemsInCommand :: int where
  "kMaxItemsInCommand = 16"

definition kMaxLoopTimes :: nat where
  "kMaxLoopTimes = 10"

definition NullFD :: int where
  "NullFD = - 1"

text \<open>\<^verbatim>\<open>static_cast<int16_t>\<close> and the wrap of 32-bit \<^verbatim>\<open>int\<close> arithmetic.\<close>

definition to_int16 :: "int \<Rightarrow> int" where
  "to_int16 x = (x + 32768) mod 65536 - 32768"

definition to_int32 :: "int \<Rightarrow> int" where
  "to_int32 x = (x + 2147483648) mod 4294967296 - 2147483648"

text \<open>C++ integer division truncates towards zero.\<close>

definition c_div :: "int \<Rightarrow> int \<Rightarrow> int" where
  "c_div a b = sgn a * sgn b * (\<bar>a\<bar> div \<bar>b\<bar>)"

subsection \<open>Decimal formatting (\<^verbatim>\<open>std::to_string\<close>, \<^verbatim>\<open>fmt::format\<close>)\<close>

definition digit_char :: "nat \<Rightarrow> char" where
  "digit_char d = char_of (48 + d)"

function dec_nat :: "nat \<Rightarrow> string" where
  "dec_nat n = (if n < 10 then [digit_char n] else dec_nat (n div 10) @ [digit_char (n mod 10)])"
  by pat_completeness auto
termination
  by (relation "measure id") auto

declare dec_nat.simps [simp del]

definition to_string :: "int \<Rightarrow> string" where
  "to_string i = (if i < 0 then CHR ''-'' # dec_nat (nat (- i)) else dec_nat (nat i))"

definition CRLF :: string where
  "CRLF = [CHR 0x0D, CHR 0x0A]"

section \<open>Submitting a job: \<^verbatim>\<open>SlotMigrator::PerformSlotMigration\<close>\<close>

definition errBusy :: failure where
  "errBusy = NotOK ''There is already a migrating slot''"

definition errAlreadyMigrated :: failure where
  "errAlreadyMigrated = NotOK ''Can't migrate slot which has been migrated''"

definition make_job :: "int \<Rightarrow> string \<Rightarrow> int \<Rightarrow> int \<Rightarrow> int \<Rightarrow> int \<Rightarrow> SlotMigrationJob" where
  "make_job slot_id ip port speed pipeline_size seq_gap =
     \<lparr> job_slot_id = to_int16 slot_id, job_dst_ip = ip, job_dst_port = port,
       job_max_speed = speed, job_max_pipeline_size = pipeline_size,
       job_seq_gap_limit = seq_gap \<rparr>"

text \<open>
  The compare-and-swap on \<^verbatim>\<open>migrating_slot_\<close> is the first test; the comparison with
  \<^verbatim>\<open>forbidden_slot_\<close> is on \<^verbatim>\<open>int\<close>, against the untruncated \<^verbatim>\<open>slot_id\<close>.
\<close>

definition PerformSlotMigration ::
  "string \<Rightarrow> string \<Rightarrow> int \<Rightarrow> int \<Rightarrow> int \<Rightarrow> int \<Rightarrow> int \<Rightarrow> SlotMigrator \<Rightarrow> Status \<times> SlotMigrator" where
  "PerformSlotMigration node_id ip port slot_id speed pipeline_size seq_gap m =
     (if migrating_slot m \<noteq> - 1 then (Inl errBusy, m)
      else
        let m1 = m\<lparr>migrating_slot := to_int16 slot_id\<rparr> in
        if forbidden_slot m1 = slot_id then (Inl errAlreadyMigrated, m1\<lparr>migrating_slot := - 1\<rparr>)
        else
          let m2 = m1\<lparr>migration_state := MS_kStarted\<rparr>;
              speed' = (if speed \<le> 0 then 0 else speed);
              pipeline_size' = (if pipeline_size \<le> 0 then kDefaultMaxPipelineSize else pipeline_size);
              seq_gap' = (if seq_gap \<le> 0 then kDefaultSequenceGapLimit else seq_gap);
              m3 = m2\<lparr>dst_node := node_id\<rparr>;
              job = make_job slot_id ip port speed' pipeline_size' seq_gap'
          in (Status_OK, m3\<lparr>migration_job := Some job, sys_log := sys_log m3 @ [NotifyOne]\<rparr>))"

section \<open>Releasing the job: \<^verbatim>\<open>SlotMigrator::Clean\<close>\<close>

definition SetStopMigrationFlag :: "bool \<Rightarrow> SlotMigrator \<Rightarrow> SlotMigrator" where
  "SetStopMigrationFlag v m = m\<lparr>stop_migration := v\<rparr>"

text \<open>\<^verbatim>\<open>UniqueFD::Reset()\<close> closes the descriptor it holds, if any, and holds none after.\<close>

definition dst_fd_Reset :: "int \<Rightarrow> SlotMigrator \<Rightarrow> SlotMigrator" where
  "dst_fd_Reset fd m =
     (if dst_fd m \<noteq> NullFD
      then m\<lparr>dst_fd := fd, sys_log := sys_log m @ [CloseFd (dst_fd m)]\<rparr>
      else m\<lparr>dst_fd := fd\<rparr>)"

definition Clean :: "SlotMigrator \<Rightarrow> SlotMigrator" where
  "Clean m =
     (let m1 = (case slot_snapshot m of
                  Some snap \<Rightarrow> m\<lparr>slot_snapshot := None, sys_log := sys_log m @ [ReleaseSnapshot snap]\<rparr>
                | None \<Rightarrow> m);
          m2 = m1\<lparr>current_stage := kNone\<rparr>;
          m3 = m2\<lparr>current_pipeline_size := 0\<rparr>;
          m4 = m3\<lparr>wal_begin_seq := 0\<rparr>;
          m5 = m4\<lparr>migration_job := None\<rparr>;
          m6 = dst_fd_Reset NullFD m5;
          m7 = m6\<lparr>migrating_slot := - 1\<rparr>
      in SetStopMigrationFlag False m7)"

section \<open>Status read: \<^verbatim>\<open>SlotMigrator::GetMigrationInfo\<close>\<close>

definition format_info :: "int \<Rightarrow> string \<Rightarrow> string \<Rightarrow> string" where
  "format_info slot node task_state =
     ''migrating_slot: '' @ to_string slot @ CRLF @
     ''destination_node: '' @ node @ CRLF @
     ''migrating_state: '' @ task_state @ CRLF"

definition GetMigrationInfo :: "SlotMigrator \<Rightarrow> string" where
  "GetMigrationInfo m =
     (if migrating_slot m < 0 \<and> forbidden_slot m < 0 \<and> migrate_failed_slot m < 0 then []
      else
        (case migration_state m of
           MS_kNone \<Rightarrow> format_info (- 1) (dst_node m) ''none''
         | MS_kStarted \<Rightarrow> format_info (migrating_slot m) (dst_node m) ''start''
         | MS_kSuccess \<Rightarrow> format_info (forbidden_slot m) (dst_node m) ''success''
         | MS_kFailed \<Rightarrow> format_info (migrate_failed_slot m) (dst_node m) ''fail''))"

section \<open>The pipelined sink\<close>

subsection \<open>Rate limit: \<^verbatim>\<open>SlotMigrator::ApplyMigrationSpeedLimit\<close>\<close>

text \<open>
  \<^verbatim>\<open>uint64_t per_request_time = 1000000 * max_pipeline_size_ / max_migration_speed_\<close>:
  the product and the quotient are computed on \<^verbatim>\<open>int\<close> (32 bits, wrapping), and the
  result is converted to \<^verbatim>\<open>uint64_t\<close>; a zero becomes 1.
\<close>

definition per_request_time :: "SlotMigrator \<Rightarrow> 64 word" where
  "per_request_time m =
     (let t = (word_of_int (c_div (to_int32 (1000000 * max_pipeline_size m)) (max_migration_speed m)) :: 64 word)
      in if t = 0 then 1 else t)"

text \<open>
  \<open>current_time\<close> is what \<^verbatim>\<open>Util::GetTimeStampUS()\<close> returns.
  \<^verbatim>\<open>std::chrono::microseconds(during)\<close> holds a signed 64-bit count, and
  \<^verbatim>\<open>sleep_for\<close> returns at once when the duration is not positive: the thread sleeps
  only when \<open>during\<close>, read as a signed number, is above zero.
\<close>

definition ApplyMigrationSpeedLimit :: "64 word \<Rightarrow> SlotMigrator \<Rightarrow> SlotMigrator" where
  "ApplyMigrationSpeedLimit current_time m =
     (if max_migration_speed m > 0 then
        (if last_send_time m + per_request_time m > current_time then
           (let during = last_send_time m + per_request_time m - current_time
            in if 0 < sint during then m\<lparr>sys_log := sys_log m @ [SleepFor (sint during)]\<rparr>
               else m)
         else m)
      else m)"

subsection \<open>Reply parser: \<^verbatim>\<open>SlotMigrator::CheckMultipleResponses\<close>\<close>

text \<open>
  The parser state \<^verbatim>\<open>BulkLen\<close> of the header is never assigned and is left out.
  The event buffer is a string. \<^verbatim>\<open>evbuffer_readln\<close> with \<^verbatim>\<open>EVBUFFER_EOL_CRLF_STRICT\<close>
  removes the first line and its CRLF, or finds no complete line.
\<close>

datatype ParserState = ArrayLen | BulkData | OneRspEnd

fun evbuffer_readln :: "string \<Rightarrow> (string \<times> string) option" where
  "evbuffer_readln [] = None"
| "evbuffer_readln [c] = None"
| "evbuffer_readln (c # d # rest) =
     (if c = CHR 0x0D \<and> d = CHR 0x0A then Some ([], rest)
      else (case evbuffer_readln (d # rest) of
              None \<Rightarrow> None
            | Some (line, rest') \<Rightarrow> Some (c # line, rest')))"

text \<open>\<^verbatim>\<open>line[0]\<close>: the line is NUL-terminated, so an empty line reads as NUL.\<close>

definition line0 :: "string \<Rightarrow> char" where
  "line0 line = (case line of [] \<Rightarrow> CHR 0x00 | c # _ \<Rightarrow> c)"

definition errProtocol :: failure where
  "errProtocol = NotOK ''protocol error: expected integer value''"

text \<open>\<open>strerror\<close> is the text of \<^verbatim>\<open>strerror(errno)\<close> at the read that fails.\<close>

definition errReadFailed :: "string \<Rightarrow> failure" where
  "errReadFailed strerror = NotOK (''failed to read response: '' @ strerror)"

definition errInvalidResponse :: "string \<Rightarrow> failure" where
  "errInvalidResponse line =
     NotOK (''got invalid response of length '' @ to_string (int (length line)) @ '': '' @ line)"

definition errUnexpectedResponse :: "string \<Rightarrow> failure" where
  "errUnexpectedResponse line =
     NotOK (''got unexpected response of length '' @ to_string (int (length line)) @ '': '' @ line)"

text \<open>
  The inner \<^verbatim>\<open>while (run)\<close> loop over the buffer. It either returns from the call, or
  stops (\<^verbatim>\<open>run = false\<close>) for the outer loop to read the socket again, keeping the
  parser state, \<^verbatim>\<open>bulk_len\<close>, \<^verbatim>\<open>cnt\<close> and the buffer.
  \<^verbatim>\<open>ParseInt<uint64_t>\<close> (parse\_util.h) is a parameter; \<^verbatim>\<open>bulk_len + 2\<close> is
  computed on \<^verbatim>\<open>size_t\<close>.
\<close>

datatype parse_out = Return Status | ReadAgain ParserState "64 word" int string

lemma evbuffer_readln_length:
  "evbuffer_readln buf = Some (line, rest) \<Longrightarrow> length buf = length line + 2 + length rest"
  by (induction buf arbitrary: line rest rule: evbuffer_readln.induct)
     (auto split: if_splits option.splits)

function parse_buffer ::
  "(string \<Rightarrow> 64 word option) \<Rightarrow> int \<Rightarrow> ParserState \<Rightarrow> 64 word \<Rightarrow> int \<Rightarrow> string \<Rightarrow> parse_out" where
  "parse_buffer ParseInt total_n pst bulk_len cnt buf =
     (case pst of
        ArrayLen \<Rightarrow>
          (case evbuffer_readln buf of
             None \<Rightarrow> ReadAgain pst bulk_len cnt buf
           | Some (line, rest) \<Rightarrow>
               if line0 line = CHR ''-'' then Return (Inl (errInvalidResponse line))
               else if line0 line = CHR ''$'' then
                 (case ParseInt (tl line) of
                    None \<Rightarrow> Return (Inl errProtocol)
                  | Some len \<Rightarrow>
                      parse_buffer ParseInt total_n (if len > 0 then BulkData else OneRspEnd) len cnt rest)
               else if line0 line = CHR ''+'' \<or> line0 line = CHR '':'' then
                 parse_buffer ParseInt total_n OneRspEnd bulk_len cnt rest
               else Return (Inl (errUnexpectedResponse line)))
      | BulkData \<Rightarrow>
          if length buf < unat (bulk_len + 2) then ReadAgain pst bulk_len cnt buf
          else parse_buffer ParseInt total_n OneRspEnd 0 cnt (drop (unat (bulk_len + 2)) buf)
      | OneRspEnd \<Rightarrow>
          if cnt + 1 \<ge> total_n then Return Status_OK
          else parse_buffer ParseInt total_n ArrayLen bulk_len (cnt + 1) buf)"
  by pat_completeness auto
termination
  by (relation "measure (\<lambda>(P, total_n, pst, bulk_len, cnt, buf).
        3 * length buf + (case pst of ArrayLen \<Rightarrow> 0 | BulkData \<Rightarrow> 2 | OneRspEnd \<Rightarrow> 1))")
     (auto dest: evbuffer_readln_length)

declare parse_buffer.simps [simp del]

text \<open>
  The outer loop: each round is one \<^verbatim>\<open>evbuffer_read\<close> from the socket. The socket is
  the list of chunks it will deliver; a read that delivers nothing (no chunk left, or an
  empty one: timeout, error or end of stream) fails the call.
\<close>

fun read_loop ::
  "(string \<Rightarrow> 64 word option) \<Rightarrow> int \<Rightarrow> ParserState \<Rightarrow> 64 word \<Rightarrow> int \<Rightarrow> string \<Rightarrow> string list \<Rightarrow> string \<Rightarrow> Status" where
  "read_loop ParseInt total_n pst bulk_len cnt buf [] strerror = Inl (errReadFailed strerror)"
| "read_loop ParseInt total_n pst bulk_len cnt buf (chunk # chunks) strerror =
     (if chunk = [] then Inl (errReadFailed strerror)
      else (case parse_buffer ParseInt total_n pst bulk_len cnt (buf @ chunk) of
              Return s \<Rightarrow> s
            | ReadAgain pst' bulk_len' cnt' buf' \<Rightarrow>
                read_loop ParseInt total_n pst' bulk_len' cnt' buf' chunks strerror))"

definition errInvalidArguments :: "int \<Rightarrow> int \<Rightarrow> failure" where
  "errInvalidArguments sock_fd total_n =
     NotOK (''invalid arguments: sock_fd='' @ to_string sock_fd @ '', count='' @ to_string total_n)"

definition CheckMultipleResponses ::
  "(string \<Rightarrow> 64 word option) \<Rightarrow> int \<Rightarrow> int \<Rightarrow> string list \<Rightarrow> string \<Rightarrow> Status" where
  "CheckMultipleResponses ParseInt sock_fd total_n chunks strerror =
     (if sock_fd < 0 \<or> total_n \<le> 0 then Inl (errInvalidArguments sock_fd total_n)
      else read_loop ParseInt total_n ArrayLen 0 0 [] chunks strerror)"

definition CheckSingleResponse ::
  "(string \<Rightarrow> 64 word option) \<Rightarrow> int \<Rightarrow> string list \<Rightarrow> string \<Rightarrow> Status" where
  "CheckSingleResponse ParseInt sock_fd chunks strerror =
     CheckMultipleResponses ParseInt sock_fd 1 chunks strerror"

subsection \<open>Flush: \<^verbatim>\<open>SlotMigrator::SendCmdsPipelineIfNeed\<close>\<close>

text \<open>
  One exchange with the destination, as the environment answers it: the clock read by
  the rate limit, the status \<^verbatim>\<open>Util::SockSend\<close> returns, the clock read after the send,
  the chunks the socket delivers to the reads that follow, and the text of
  \<^verbatim>\<open>strerror(errno)\<close> at the read that delivers nothing. The environment of a
  call is the list of the exchanges to come; with none left the connection is dead and
  a send fails.
\<close>

record exchange =
  x_now :: "64 word"
  x_send :: Status
  x_sent_at :: "64 word"
  x_replies :: "string list"
  x_strerror :: string

definition errMigrationTaskCanceled :: failure where
  "errMigrationTaskCanceled = NotOK ''key migration stopped due to a task cancellation''"

definition errFailedToSendCommands :: string where
  "errFailedToSendCommands = ''failed to send commands to restore a key''"

definition errFailedToSetImportStatus :: string where
  "errFailedToSetImportStatus = ''failed to set import status on destination node''"

text \<open>\<^verbatim>\<open>Status::Prefixed\<close>; an exception on its way up is not a status and is left as it is.\<close>

fun Prefixed :: "string \<Rightarrow> failure \<Rightarrow> failure" where
  "Prefixed pre (NotOK msg) = NotOK (pre @ '': '' @ msg)"
| "Prefixed pre (Thrown what) = Thrown what"

definition dead_exchange :: exchange where
  "dead_exchange = \<lparr> x_now = 0, x_send = Inl (NotOK ''connection closed''), x_sent_at = 0, x_replies = [],
       x_strerror = ''Connection reset by peer'' \<rparr>"

definition next_exchange :: "exchange list \<Rightarrow> exchange" where
  "next_exchange net = (case net of [] \<Rightarrow> dead_exchange | x # _ \<Rightarrow> x)"

text \<open>
  The call returns its status, the command buffer (\<^verbatim>\<open>*commands\<close>), the migrator and
  the exchanges left.
\<close>

definition SendCmdsPipelineIfNeed ::
  "(string \<Rightarrow> 64 word option) \<Rightarrow> string \<Rightarrow> bool \<Rightarrow> SlotMigrator \<Rightarrow> exchange list
     \<Rightarrow> Status \<times> string \<times> SlotMigrator \<times> exchange list" where
  "SendCmdsPipelineIfNeed ParseInt commands need m net =
     (if stop_migration m then (Inl errMigrationTaskCanceled, commands, m, net)
      else if \<not> need \<and> current_pipeline_size m < max_pipeline_size m then (Status_OK, commands, m, net)
      else if current_pipeline_size m = 0 then (Status_OK, commands, m, net)
      else
        let x = next_exchange net;
            m1 = ApplyMigrationSpeedLimit (x_now x) m;
            m2 = m1\<lparr>sys_log := sys_log m1 @ [SockSend (dst_fd m1) commands]\<rparr>
        in (case x_send x of
              Inl e \<Rightarrow> (Inl (Prefixed ''failed to write data to a socket'' e), commands, m2, tl net)
            | Inr _ \<Rightarrow>
             let m3 = m2\<lparr>last_send_time := x_sent_at x\<rparr>;
                 m4 = m3\<lparr>sys_log := sys_log m3 @ [ReadResponses (dst_fd m3) (current_pipeline_size m3)]\<rparr>
             in (case CheckMultipleResponses ParseInt (dst_fd m4) (current_pipeline_size m4)
                          (x_replies x) (x_strerror x) of
                   Inl e \<Rightarrow> (Inl (Prefixed ''wrong response from the destination node'' e), commands, m4, tl net)
                 | Inr _ \<Rightarrow> (Status_OK, [], m4\<lparr>current_pipeline_size := 0\<rparr>, tl net))))"

section \<open>Code of the repository outside these sources\<close>

text \<open>
  The migrator calls helpers of the repository that are not among the sources read here
  (parse\_util.h, encoding.h, redis\_metadata.h, redis\_reply.h, batch\_extractor.h, the key
  encoding of redis\_db.h). They enter the model as the fields of one record, so that every
  statement below holds whatever they compute; only the wire encoding and the expiry test
  are also given a reading, taken from the specification, for concrete evaluation.
\<close>

datatype RedisType =
    kRedisNone | kRedisString | kRedisHash | kRedisList | kRedisSet | kRedisZSet
  | kRedisBitmap | kRedisSortedint | kRedisStream

record Metadata =
  md_type :: RedisType
  md_expire :: "64 word"
  md_version :: "64 word"
  md_size :: "32 word"

record StreamMetadata = Metadata +
  last_generated_id :: string
  entries_added :: "64 word"
  max_deleted_entry_id :: string

record helpers =
  ParseInt_uint64 :: "string \<Rightarrow> 64 word option"
  ParseInt_int :: "string \<Rightarrow> int option"
  Metadata_Decode :: "string \<Rightarrow> Metadata"
  StreamMetadata_Decode :: "string \<Rightarrow> StreamMetadata"
  Metadata_Expired :: "Metadata \<Rightarrow> bool"
  GetOffsetAfterExpire :: "char \<Rightarrow> nat"
  DecodeFixed64 :: "string \<Rightarrow> 64 word"
  Float2String_DecodeDouble :: "string \<Rightarrow> string"
  ExtractStreamAddCommand :: "string \<Rightarrow> string \<Rightarrow> string list \<Rightarrow> failure + string list"
  ComposeSlotKeyPrefix :: "int \<Rightarrow> string"
  ExtractNamespaceKey :: "string \<Rightarrow> string"
  SubKeyPrefix :: "string \<Rightarrow> 64 word \<Rightarrow> string"
  GetSubKey :: "string \<Rightarrow> string"

text \<open>
  Modelled from the spec: \<^verbatim>\<open>Redis::MultiBulkString\<close> (redis\_reply.h is missing). ``Encoding
  is the canonical length-prefixed array of bulk strings: \<^verbatim>\<open>*N\r\n$L\r\n<bytes>\r\n...\<close>.
  Numbers are decimal ASCII.'' The second argument of the source's calls only matters for
  empty strings: the encoder passes \<^verbatim>\<open>false\<close> (an empty string is the bulk string of
  length 0, as here), and the one call that leaves it out passes no empty string.
\<close>

definition BulkString :: "string \<Rightarrow> string" where
  "BulkString v = ''$'' @ dec_nat (length v) @ CRLF @ v @ CRLF"

definition MultiBulkString :: "string list \<Rightarrow> string" where
  "MultiBulkString values = ''*'' @ dec_nat (length values) @ CRLF @ concat (map BulkString values)"

text \<open>
  Modelled from the spec: \<^verbatim>\<open>Metadata::Expired\<close> (redis\_metadata.h is missing). ``A key is
  expired iff expiry > 0 and expiry \<open>\<le>\<close> now.'' \<open>now\<close> is the clock in milliseconds.
\<close>

definition Expired_at :: "64 word \<Rightarrow> Metadata \<Rightarrow> bool" where
  "Expired_at now md = (md_expire md > 0 \<and> md_expire md \<le> now)"

text \<open>
  Modelled from the spec: \<^verbatim>\<open>ParseInt<uint64_t>\<close> (parse\_util.h is missing). ``For \<^verbatim>\<open>$\<close> the
  line carries a non-negative length L'', in decimal ASCII: the non-empty digit strings below
  \<open>2^64\<close> are read, anything else is refused.
\<close>

definition is_digit :: "char \<Rightarrow> bool" where
  "is_digit c = (48 \<le> (of_char c :: nat) \<and> (of_char c :: nat) \<le> 57)"

fun dec_value :: "nat \<Rightarrow> string \<Rightarrow> nat" where
  "dec_value acc [] = acc"
| "dec_value acc (c # cs) = dec_value (10 * acc + (of_char c - 48)) cs"

definition ParseInt_decimal :: "string \<Rightarrow> 64 word option" where
  "ParseInt_decimal s =
     (if s \<noteq> [] \<and> list_all is_digit s \<and> dec_value 0 s < 2 ^ 64
      then Some (of_nat (dec_value 0 s)) else None)"

section \<open>Key encoder\<close>

definition type_to_cmd :: "RedisType \<Rightarrow> string" where
  "type_to_cmd t =
     (case t of
        kRedisString \<Rightarrow> ''set'' | kRedisList \<Rightarrow> ''rpush'' | kRedisHash \<Rightarrow> ''hmset''
      | kRedisSet \<Rightarrow> ''sadd'' | kRedisZSet \<Rightarrow> ''zadd'' | kRedisBitmap \<Rightarrow> ''setbit''
      | kRedisSortedint \<Rightarrow> ''siadd'' | kRedisStream \<Rightarrow> ''xadd'' | kRedisNone \<Rightarrow> [])"

fun starts_with :: "string \<Rightarrow> string \<Rightarrow> bool" where
  "starts_with s [] = True"
| "starts_with [] (p # ps) = False"
| "starts_with (c # s) (p # ps) = (c = p \<and> starts_with s ps)"

text \<open>\<^verbatim>\<open>current_pipeline_size_++\<close> on a 32-bit \<^verbatim>\<open>int\<close>.\<close>

definition incr_pipeline :: "SlotMigrator \<Rightarrow> SlotMigrator" where
  "incr_pipeline m = m\<lparr>current_pipeline_size := to_int32 (current_pipeline_size m + 1)\<rparr>"

text \<open>
  The calls below thread the command buffer \<^verbatim>\<open>*restore_cmds\<close>, the migrator and the
  exchanges left; a result is \<open>(status, restore_cmds, m, net)\<close>.
\<close>

type_synonym sink = "string \<times> SlotMigrator \<times> exchange list"

subsection \<open>\<^verbatim>\<open>SlotMigrator::MigrateSimpleKey\<close>\<close>

text \<open>
  \<^verbatim>\<open>bytes.substr(pos)\<close> throws \<^verbatim>\<open>std::out_of_range\<close> when \<open>pos\<close> is beyond the
  string; nothing on the way up to the thread function catches it. \<^verbatim>\<open>bytes[0]\<close> of an
  empty string is NUL.
\<close>

definition errOutOfRange :: failure where
  "errOutOfRange = Thrown ''std::out_of_range''"

definition MigrateSimpleKey ::
  "helpers \<Rightarrow> string \<Rightarrow> Metadata \<Rightarrow> string \<Rightarrow> sink \<Rightarrow> Status \<times> sink" where
  "MigrateSimpleKey h key metadata bytes snk =
     (case snk of (restore_cmds, m, net) \<Rightarrow>
        let off = GetOffsetAfterExpire h (line0 bytes) in
        if off > length bytes then (Inl errOutOfRange, snk)
        else
          let command = [''SET'', key, drop off bytes];
              command' = (if md_expire metadata > 0
                          then command @ [''PXAT'', dec_nat (unat (md_expire metadata))]
                          else command);
              restore_cmds1 = restore_cmds @ MultiBulkString command';
              m1 = incr_pipeline m
          in (case SendCmdsPipelineIfNeed (ParseInt_uint64 h) restore_cmds1 False m1 net of
                (Inl e, snk') \<Rightarrow> (Inl (Prefixed errFailedToSendCommands e), snk')
              | (Inr _, snk') \<Rightarrow> (Status_OK, snk')))"

subsection \<open>\<^verbatim>\<open>SlotMigrator::MigrateBitmapKey\<close>\<close>

text \<open>
  The inner loop over \<^verbatim>\<open>bit_idx\<close>: one \<^verbatim>\<open>setbit key offset 1\<close> per set bit, the offset
  computed on \<^verbatim>\<open>uint32_t\<close>; after each command \<^verbatim>\<open>user_cmd\<close> is cut back to its first
  two entries.
\<close>

fun bitmap_bits ::
  "32 word \<Rightarrow> nat \<Rightarrow> char \<Rightarrow> nat list \<Rightarrow> string list \<times> string \<times> SlotMigrator
     \<Rightarrow> string list \<times> string \<times> SlotMigrator" where
  "bitmap_bits index byte_idx byte [] acc = acc"
| "bitmap_bits index byte_idx byte (bit_idx # bits) (user_cmd, restore_cmds, m) =
     (if bit (of_char byte :: nat) bit_idx then
        let offset = index * 8 + of_nat byte_idx * 8 + of_nat bit_idx;
            user_cmd1 = user_cmd @ [dec_nat (unat offset), ''1'']
        in bitmap_bits index byte_idx byte bits
             (take 2 user_cmd1, restore_cmds @ MultiBulkString user_cmd1, incr_pipeline m)
      else bitmap_bits index byte_idx byte bits (user_cmd, restore_cmds, m))"

text \<open>The outer loop over the bytes of the fragment, from \<^verbatim>\<open>byte_idx\<close> on.\<close>

fun bitmap_bytes ::
  "helpers \<Rightarrow> 32 word \<Rightarrow> nat \<Rightarrow> string \<Rightarrow> string list \<Rightarrow> sink \<Rightarrow> (failure + string list) \<times> sink" where
  "bitmap_bytes h index byte_idx [] user_cmd snk = (Inr user_cmd, snk)"
| "bitmap_bytes h index byte_idx (byte # fragment) user_cmd (restore_cmds, m, net) =
     (if (of_char byte :: nat) \<noteq> 0 then
        (case bitmap_bits index byte_idx byte [0 ..< 8] (user_cmd, restore_cmds, m) of
           (user_cmd1, restore_cmds1, m1) \<Rightarrow>
             (case SendCmdsPipelineIfNeed (ParseInt_uint64 h) restore_cmds1 False m1 net of
                (Inl e, snk') \<Rightarrow> (Inl (Prefixed errFailedToSendCommands e), snk')
              | (Inr _, snk') \<Rightarrow> bitmap_bytes h index (Suc byte_idx) fragment user_cmd1 snk'))
      else bitmap_bytes h index (Suc byte_idx) fragment user_cmd (restore_cmds, m, net))"

text \<open>
  \<open>ikey\<close> and \<open>fragment\<close> are the key and the value under the iterator;
  \<^verbatim>\<open>uint32_t index = *parse_result\<close> converts the parsed \<^verbatim>\<open>int\<close>. The result carries
  \<^verbatim>\<open>*user_cmd\<close> as the call leaves it.
\<close>

definition MigrateBitmapKey ::
  "helpers \<Rightarrow> string \<Rightarrow> string \<Rightarrow> string list \<Rightarrow> sink \<Rightarrow> (failure + string list) \<times> sink" where
  "MigrateBitmapKey h ikey fragment user_cmd snk =
     (case ParseInt_int h (GetSubKey h ikey) of
        None \<Rightarrow> (Inl (NotOK ''index is not a valid integer''), snk)
      | Some parsed \<Rightarrow> bitmap_bytes h (word_of_int parsed) 0 fragment user_cmd snk)"

subsection \<open>\<^verbatim>\<open>SlotMigrator::MigrateComplexKey\<close>\<close>

text \<open>
  The store at the migration snapshot: for each column family, the entries an iterator
  yields after \<^verbatim>\<open>Seek(prefix)\<close>, in order.
\<close>

record store =
  db_seek :: "string \<Rightarrow> (string \<times> string) list"
  metadata_seek :: "string \<Rightarrow> (string \<times> string) list"
  stream_seek :: "string \<Rightarrow> (string \<times> string) list"

text \<open>The \<^verbatim>\<open>switch (metadata.Type())\<close> of the loop body: what one entry adds.\<close>

definition complex_item ::
  "helpers \<Rightarrow> Metadata \<Rightarrow> string \<Rightarrow> string \<Rightarrow> string list \<Rightarrow> sink \<Rightarrow> (failure + string list) \<times> sink" where
  "complex_item h metadata ikey ivalue user_cmd snk =
     (case md_type metadata of
        kRedisSet \<Rightarrow> (Inr (user_cmd @ [GetSubKey h ikey]), snk)
      | kRedisSortedint \<Rightarrow>
          (Inr (user_cmd @ [dec_nat (unat (DecodeFixed64 h (GetSubKey h ikey)))]), snk)
      | kRedisZSet \<Rightarrow>
          (Inr (user_cmd @ [Float2String_DecodeDouble h ivalue, GetSubKey h ikey]), snk)
      | kRedisBitmap \<Rightarrow>
          (case MigrateBitmapKey h ikey ivalue user_cmd snk of
             (Inl e, snk') \<Rightarrow> (Inl (Prefixed ''failed to migrate bitmap key'' e), snk')
           | (Inr user_cmd', snk') \<Rightarrow> (Inr user_cmd', snk'))
      | kRedisHash \<Rightarrow> (Inr (user_cmd @ [GetSubKey h ikey, ivalue]), snk)
      | kRedisList \<Rightarrow> (Inr (user_cmd @ [ivalue]), snk)
      | _ \<Rightarrow> (Inr user_cmd, snk))"

text \<open>
  The \<^verbatim>\<open>for\<close> loop over the iterator. It returns from the call (\<open>Inl\<close>), or ends
  (\<open>Inr\<close>) with \<^verbatim>\<open>user_cmd\<close>, \<^verbatim>\<open>item_count\<close> and the sink.
\<close>

fun complex_loop ::
  "helpers \<Rightarrow> Metadata \<Rightarrow> string \<Rightarrow> (string \<times> string) list \<Rightarrow> string list \<Rightarrow> int \<Rightarrow> sink
     \<Rightarrow> (Status \<times> sink) + (string list \<times> int \<times> sink)" where
  "complex_loop h metadata prefix_subkey [] user_cmd item_count snk = Inr (user_cmd, item_count, snk)"
| "complex_loop h metadata prefix_subkey ((ikey, ivalue) # rest) user_cmd item_count (restore_cmds, m, net) =
     (if stop_migration m then Inl (Inl errMigrationTaskCanceled, (restore_cmds, m, net))
      else if \<not> starts_with ikey prefix_subkey then Inr (user_cmd, item_count, (restore_cmds, m, net))
      else
        (case complex_item h metadata ikey ivalue user_cmd (restore_cmds, m, net) of
           (Inl e, snk1) \<Rightarrow> Inl (Inl e, snk1)
         | (Inr user_cmd1, (restore_cmds1, m1, net1)) \<Rightarrow>
             if md_type metadata \<noteq> kRedisBitmap then
               (if item_count + 1 \<ge> kMaxItemsInCommand then
                  (case SendCmdsPipelineIfNeed (ParseInt_uint64 h)
                          (restore_cmds1 @ MultiBulkString user_cmd1) False (incr_pipeline m1) net1 of
                     (Inl e, snk2) \<Rightarrow> Inl (Inl (Prefixed errFailedToSendCommands e), snk2)
                   | (Inr _, snk2) \<Rightarrow>
                       complex_loop h metadata prefix_subkey rest (take 2 user_cmd1) 0 snk2)
                else complex_loop h metadata prefix_subkey rest user_cmd1 (item_count + 1)
                       (restore_cmds1, m1, net1))
             else complex_loop h metadata prefix_subkey rest user_cmd1 item_count
                    (restore_cmds1, m1, net1)))"

definition MigrateComplexKey ::
  "helpers \<Rightarrow> store \<Rightarrow> string \<Rightarrow> Metadata \<Rightarrow> sink \<Rightarrow> Status \<times> sink" where
  "MigrateComplexKey h db key metadata snk =
     (let cmd = type_to_cmd (md_type metadata);
          user_cmd = [cmd, key];
          prefix_subkey = SubKeyPrefix h key (md_version metadata)
      in case complex_loop h metadata prefix_subkey (db_seek db prefix_subkey) user_cmd 0 snk of
           Inl r \<Rightarrow> r
         | Inr (user_cmd1, item_count, (restore_cmds, m, net)) \<Rightarrow>
             let (restore_cmds1, m1) =
                   (if item_count mod kMaxItemsInCommand \<noteq> 0
                    then (restore_cmds @ MultiBulkString user_cmd1, incr_pipeline m)
                    else (restore_cmds, m));
                 (restore_cmds2, m2) =
                   (if md_expire metadata > 0
                    then (restore_cmds1 @ MultiBulkString
                            [''PEXPIREAT'', key, dec_nat (unat (md_expire metadata))], incr_pipeline m1)
                    else (restore_cmds1, m1))
             in (case SendCmdsPipelineIfNeed (ParseInt_uint64 h) restore_cmds2 False m2 net of
                   (Inl e, snk') \<Rightarrow> (Inl (Prefixed errFailedToSendCommands e), snk')
                 | (Inr _, snk') \<Rightarrow> (Status_OK, snk')))"

subsection \<open>\<^verbatim>\<open>SlotMigrator::MigrateStream\<close>\<close>

fun stream_loop ::
  "helpers \<Rightarrow> string \<Rightarrow> (string \<times> string) list \<Rightarrow> string list \<Rightarrow> sink
     \<Rightarrow> (Status \<times> sink) + (string list \<times> sink)" where
  "stream_loop h prefix_key [] user_cmd snk = Inr (user_cmd, snk)"
| "stream_loop h prefix_key ((ikey, ivalue) # rest) user_cmd (restore_cmds, m, net) =
     (if stop_migration m then Inl (Inl errMigrationTaskCanceled, (restore_cmds, m, net))
      else if \<not> starts_with ikey prefix_key then Inr (user_cmd, (restore_cmds, m, net))
      else
        (case ExtractStreamAddCommand h ikey ivalue user_cmd of
           Inl e \<Rightarrow> Inl (Inl e, (restore_cmds, m, net))
         | Inr user_cmd1 \<Rightarrow>
             (case SendCmdsPipelineIfNeed (ParseInt_uint64 h)
                     (restore_cmds @ MultiBulkString user_cmd1) False (incr_pipeline m) net of
                (Inl e, snk2) \<Rightarrow> Inl (Inl (Prefixed errFailedToSendCommands e), snk2)
              | (Inr _, snk2) \<Rightarrow> stream_loop h prefix_key rest (take 2 user_cmd1) snk2)))"

definition MigrateStream ::
  "helpers \<Rightarrow> store \<Rightarrow> string \<Rightarrow> StreamMetadata \<Rightarrow> sink \<Rightarrow> Status \<times> sink" where
  "MigrateStream h db key metadata snk =
     (let prefix_key = SubKeyPrefix h key (md_version metadata);
          user_cmd = [type_to_cmd (md_type metadata), key]
      in case stream_loop h prefix_key (stream_seek db prefix_key) user_cmd snk of
           Inl r \<Rightarrow> r
         | Inr (user_cmd1, (restore_cmds, m, net)) \<Rightarrow>
             let restore_cmds1 = restore_cmds @ MultiBulkString
                   [''XSETID'', key, last_generated_id metadata, ''ENTRIESADDED'',
                    dec_nat (unat (entries_added metadata)), ''MAXDELETEDID'',
                    max_deleted_entry_id metadata];
                 m1 = incr_pipeline m;
                 (restore_cmds2, m2) =
                   (if md_expire metadata > 0
                    then (restore_cmds1 @ MultiBulkString
                            [''PEXPIREAT'', key, dec_nat (unat (md_expire metadata))], incr_pipeline m1)
                    else (restore_cmds1, m1))
             in (case SendCmdsPipelineIfNeed (ParseInt_uint64 h) restore_cmds2 False m2 net of
                   (Inl e, snk') \<Rightarrow> (Inl (Prefixed errFailedToSendCommands e), snk')
                 | (Inr _, snk') \<Rightarrow> (Status_OK, snk')))"

subsection \<open>\<^verbatim>\<open>SlotMigrator::MigrateOneKey\<close>\<close>

definition MigrateOneKey ::
  "helpers \<Rightarrow> store \<Rightarrow> string \<Rightarrow> string \<Rightarrow> sink \<Rightarrow> (failure + KeyMigrationResult) \<times> sink" where
  "MigrateOneKey h db key encoded_metadata snk =
     (let bytes = encoded_metadata;
          metadata = Metadata_Decode h bytes
      in if md_type metadata \<noteq> kRedisString \<and> md_type metadata \<noteq> kRedisStream
            \<and> md_size metadata = 0
         then (Inr kUnderlyingStructEmpty, snk)
         else if Metadata_Expired h metadata then (Inr kExpired, snk)
         else
           (case md_type metadata of
              kRedisString \<Rightarrow>
                (case MigrateSimpleKey h key metadata bytes snk of
                   (Inl e, snk') \<Rightarrow> (Inl (Prefixed ''failed to migrate simple key'' e), snk')
                 | (Inr _, snk') \<Rightarrow> (Inr kMigrated, snk'))
            | kRedisStream \<Rightarrow>
                (case MigrateStream h db key (StreamMetadata_Decode h bytes) snk of
                   (Inl e, snk') \<Rightarrow> (Inl (Prefixed ''failed to migrate stream key'' e), snk')
                 | (Inr _, snk') \<Rightarrow> (Inr kMigrated, snk'))
            | kRedisNone \<Rightarrow> (Inr kMigrated, snk)
            | _ \<Rightarrow>
                (case MigrateComplexKey h db key metadata snk of
                   (Inl e, snk') \<Rightarrow> (Inl (Prefixed ''failed to migrate complex key'' e), snk')
                 | (Inr _, snk') \<Rightarrow> (Inr kMigrated, snk'))))"

section \<open>Snapshot scanner: \<^verbatim>\<open>SlotMigrator::SendSnapshot\<close>\<close>

text \<open>The key counters of the source are only logged and are left out.\<close>

fun snapshot_loop ::
  "helpers \<Rightarrow> store \<Rightarrow> string \<Rightarrow> (string \<times> string) list \<Rightarrow> sink \<Rightarrow> (Status \<times> sink) + sink" where
  "snapshot_loop h db pre [] snk = Inr snk"
| "snapshot_loop h db pre ((ikey, ivalue) # rest) (restore_cmds, m, net) =
     (if stop_migration m then Inl (Inl errMigrationTaskCanceled, (restore_cmds, m, net))
      else if \<not> starts_with ikey pre then Inr (restore_cmds, m, net)
      else
        let user_key = ExtractNamespaceKey h ikey in
        (case MigrateOneKey h db user_key ivalue (restore_cmds, m, net) of
           (Inl e, snk1) \<Rightarrow> Inl (Inl (Prefixed (''failed to migrate a key '' @ user_key) e), snk1)
         | (Inr _, snk1) \<Rightarrow> snapshot_loop h db pre rest snk1))"

definition SendSnapshot ::
  "helpers \<Rightarrow> store \<Rightarrow> SlotMigrator \<Rightarrow> exchange list \<Rightarrow> Status \<times> SlotMigrator \<times> exchange list" where
  "SendSnapshot h db m net =
     (let slot = migrating_slot m;
          pre = ComposeSlotKeyPrefix h slot
      in case snapshot_loop h db pre (metadata_seek db pre) ([], m, net) of
           Inl (s, (restore_cmds, m1, net1)) \<Rightarrow> (s, m1, net1)
         | Inr (restore_cmds, m1, net1) \<Rightarrow>
             (case SendCmdsPipelineIfNeed (ParseInt_uint64 h) restore_cmds True m1 net1 of
                (Inl e, (c, m2, net2)) \<Rightarrow> (Inl (Prefixed errFailedToSendCommands e), m2, net2)
              | (Inr _, (c, m2, net2)) \<Rightarrow> (Status_OK, m2, net2)))"

section \<open>WAL tailer\<close>

text \<open>
  A WAL batch as the tailer sees it: its sequence number, \<^verbatim>\<open>writeBatchPtr->Count()\<close>, and
  what \<^verbatim>\<open>WriteBatchExtractor\<close> (not among the sources) makes of it for the migrating
  slot: the RESP commands in order, or \<open>None\<close> when the batch does not parse. A
  \<^verbatim>\<open>TransactionLogIterator\<close> is the list of the batches it yields.
\<close>

record batch =
  b_sequence :: "64 word"
  b_count :: "32 word"
  b_commands :: "string list option"

definition GenerateCmdsFromBatch :: "batch \<Rightarrow> string \<times> SlotMigrator \<Rightarrow> failure + string \<times> SlotMigrator" where
  "GenerateCmdsFromBatch b acc =
     (case b_commands b of
        None \<Rightarrow> Inl (NotOK [])
      | Some cmds \<Rightarrow> Inr (fold (\<lambda>it (commands, m). (commands @ it, incr_pipeline m)) cmds acc))"

subsection \<open>\<^verbatim>\<open>SlotMigrator::MigrateIncrementData\<close>\<close>

text \<open>
  The \<^verbatim>\<open>while (true)\<close> loop; the iterator stands on the head of the list. The loop
  returns from the call (\<open>Inl\<close>) or breaks (\<open>Inr\<close>). The source enters it on a valid
  iterator only.
\<close>

fun wal_loop ::
  "helpers \<Rightarrow> 64 word \<Rightarrow> 64 word \<Rightarrow> batch list \<Rightarrow> sink \<Rightarrow> (Status \<times> sink) + sink" where
  "wal_loop h end_seq next_seq [] snk = Inl (Inl (NotOK []), snk)"
| "wal_loop h end_seq next_seq (b # rest) (commands, m, net) =
     (if stop_migration m then Inl (Inl (NotOK []), (commands, m, net))
      else if b_sequence b \<noteq> next_seq then Inl (Inl (NotOK []), (commands, m, net))
      else
        (case GenerateCmdsFromBatch b (commands, m) of
           Inl e \<Rightarrow> Inl (Inl (NotOK []), (commands, m, net))
         | Inr (commands1, m1) \<Rightarrow>
             (case SendCmdsPipelineIfNeed (ParseInt_uint64 h) commands1 False m1 net of
                (Inl e, snk2) \<Rightarrow> Inl (Inl (NotOK []), snk2)
              | (Inr _, snk2) \<Rightarrow>
                  let next_seq' = b_sequence b + ucast (b_count b) in
                  if next_seq' > end_seq then Inr snk2
                  else if rest = [] then Inl (Inl (NotOK []), snk2)
                  else wal_loop h end_seq next_seq' rest snk2)))"

definition MigrateIncrementData ::
  "helpers \<Rightarrow> batch list option \<Rightarrow> 64 word \<Rightarrow> SlotMigrator \<Rightarrow> exchange list
     \<Rightarrow> Status \<times> SlotMigrator \<times> exchange list" where
  "MigrateIncrementData h iter end_seq m net =
     (case iter of
        None \<Rightarrow> (Inl (NotOK []), m, net)
      | Some [] \<Rightarrow> (Inl (NotOK []), m, net)
      | Some batches \<Rightarrow>
          (case wal_loop h end_seq (wal_begin_seq m + 1) batches ([], m, net) of
             Inl (s, (commands, m1, net1)) \<Rightarrow> (s, m1, net1)
           | Inr (commands, m1, net1) \<Rightarrow>
               (case SendCmdsPipelineIfNeed (ParseInt_uint64 h) commands True m1 net1 of
                  (Inl e, (c, m2, net2)) \<Rightarrow> (Inl (NotOK []), m2, net2)
                | (Inr _, (c, m2, net2)) \<Rightarrow> (Status_OK, m2, net2))))"

subsection \<open>\<^verbatim>\<open>SlotMigrator::SyncWALBeforeForbiddingSlot\<close>\<close>

text \<open>
  What the store answers in one round: \<^verbatim>\<open>GetLatestSequenceNumber()\<close> and
  \<^verbatim>\<open>GetWALIter(wal_begin_seq_ + 1, &iter)\<close>, a failure or the iterator (possibly null).
  The write load is any function from the round number to such an answer.
  The loop returns its status, \<^verbatim>\<open>count\<close> (the rounds that tailed the WAL), the migrator
  and the exchanges left.
\<close>

record wal_round =
  latest_seq :: "64 word"
  wal_iter :: "string + batch list option"

function before_loop ::
  "helpers \<Rightarrow> (nat \<Rightarrow> wal_round) \<Rightarrow> nat \<Rightarrow> SlotMigrator \<Rightarrow> exchange list
     \<Rightarrow> Status \<times> nat \<times> SlotMigrator \<times> exchange list" where
  "before_loop h wal count m net =
     (if count < kMaxLoopTimes then
        let latest = latest_seq (wal count);
            gap = latest - wal_begin_seq m
        in if gap \<le> word_of_int (seq_gap_limit m) then (Status_OK, count, m, net)
           else
             (case wal_iter (wal count) of
                Inl e \<Rightarrow> (Inl (NotOK []), count, m, net)
              | Inr iter \<Rightarrow>
                  (case MigrateIncrementData h iter latest m net of
                     (Inl e, m1, net1) \<Rightarrow> (Inl (NotOK []), count, m1, net1)
                   | (Inr _, m1, net1) \<Rightarrow>
                       before_loop h wal (count + 1) (m1\<lparr>wal_begin_seq := latest\<rparr>) net1))
      else (Status_OK, count, m, net))"
  by pat_completeness auto
termination
  by (relation "measure (\<lambda>(h, wal, count, m, net). kMaxLoopTimes - count)") auto

declare before_loop.simps [simp del]

definition SyncWALBeforeForbiddingSlot ::
  "helpers \<Rightarrow> (nat \<Rightarrow> wal_round) \<Rightarrow> SlotMigrator \<Rightarrow> exchange list
     \<Rightarrow> Status \<times> nat \<times> SlotMigrator \<times> exchange list" where
  "SyncWALBeforeForbiddingSlot h wal m net = before_loop h wal 0 m net"

subsection \<open>Cutover and the last delta\<close>

definition SetForbiddenSlot :: "int \<Rightarrow> SlotMigrator \<Rightarrow> SlotMigrator" where
  "SetForbiddenSlot slot m = m\<lparr>forbidden_slot := slot\<rparr>"

definition ReleaseForbiddenSlot :: "SlotMigrator \<Rightarrow> SlotMigrator" where
  "ReleaseForbiddenSlot m = m\<lparr>forbidden_slot := - 1\<rparr>"

definition SyncWALAfterForbiddingSlot ::
  "helpers \<Rightarrow> wal_round \<Rightarrow> SlotMigrator \<Rightarrow> exchange list \<Rightarrow> Status \<times> SlotMigrator \<times> exchange list" where
  "SyncWALAfterForbiddingSlot h r m net =
     (let latest = latest_seq r in
      if latest \<le> wal_begin_seq m then (Status_OK, m, net)
      else
        (case wal_iter r of
           Inl e \<Rightarrow> (Inl (NotOK []), m, net)
         | Inr iter \<Rightarrow>
             (case MigrateIncrementData h iter latest m net of
                (Inl e, m1, net1) \<Rightarrow> (Inl (NotOK []), m1, net1)
              | (Inr _, m1, net1) \<Rightarrow> (Status_OK, m1, net1))))"

definition SyncWAL ::
  "helpers \<Rightarrow> (nat \<Rightarrow> wal_round) \<Rightarrow> wal_round \<Rightarrow> SlotMigrator \<Rightarrow> exchange list
     \<Rightarrow> Status \<times> SlotMigrator \<times> exchange list" where
  "SyncWAL h wal_before wal_after m net =
     (case SyncWALBeforeForbiddingSlot h wal_before m net of
        (Inl e, count, m1, net1) \<Rightarrow>
          (Inl (Prefixed ''failed to sync WAL before forbidding a slot'' e), m1, net1)
      | (Inr _, count, m1, net1) \<Rightarrow>
          let m2 = SetForbiddenSlot (migrating_slot m1) m1 in
          (case SyncWALAfterForbiddingSlot h wal_after m2 net1 of
             (Inl e, m3, net3) \<Rightarrow>
               (Inl (Prefixed ''failed to sync WAL after forbidding a slot'' e), m3, net3)
           | (Inr _, m3, net3) \<Rightarrow> (Status_OK, m3, net3)))"

section \<open>Migration state machine\<close>

text \<open>
  Modelled from the spec: the import status codes of slot\_import.h (missing).
  ``\<^verbatim>\<open>CLUSTER IMPORT <slot> <0|1|2>\<close> where 0 = Start, 1 = Success, 2 = Failed.''
\<close>

definition kImportStart :: int where
  "kImportStart = 0"

definition kImportSuccess :: int where
  "kImportSuccess = 1"

definition kImportFailed :: int where
  "kImportFailed = 2"

text \<open>
  What the rest of the server answers during one step of the migration thread: the
  snapshot the store hands out (its sequence number, or none), the result of
  \<^verbatim>\<open>Util::SockConnect\<close>, the configured password, the result of
  \<^verbatim>\<open>Cluster::SetSlotMigrated\<close>, the store at the snapshot, and the WAL as the two phases
  of \<^verbatim>\<open>SyncWAL\<close> find it.
\<close>

record world =
  w_snapshot :: "64 word option"
  w_connect :: "string + int"
  w_requirepass :: string
  w_set_slot_migrated :: Status
  w_store :: store
  w_wal_before :: "nat \<Rightarrow> wal_round"
  w_wal_after :: wal_round

definition AuthOnDstNode ::
  "helpers \<Rightarrow> int \<Rightarrow> string \<Rightarrow> SlotMigrator \<Rightarrow> exchange list \<Rightarrow> Status \<times> SlotMigrator \<times> exchange list" where
  "AuthOnDstNode h sock_fd password m net =
     (let cmd = MultiBulkString [''auth'', password];
          x = next_exchange net;
          m1 = m\<lparr>sys_log := sys_log m @ [SockSend sock_fd cmd]\<rparr>
      in case x_send x of
           Inl e \<Rightarrow> (Inl (Prefixed ''failed to send AUTH command'' e), m1, tl net)
         | Inr _ \<Rightarrow>
             let m2 = m1\<lparr>sys_log := sys_log m1 @ [ReadResponses sock_fd 1]\<rparr> in
             (case CheckSingleResponse (ParseInt_uint64 h) sock_fd (x_replies x) (x_strerror x) of
                Inl e \<Rightarrow> (Inl (Prefixed ''failed to check the response of AUTH command'' e), m2, tl net)
              | Inr _ \<Rightarrow> (Status_OK, m2, tl net)))"

definition SetImportStatusOnDstNode ::
  "helpers \<Rightarrow> int \<Rightarrow> int \<Rightarrow> SlotMigrator \<Rightarrow> exchange list \<Rightarrow> Status \<times> SlotMigrator \<times> exchange list" where
  "SetImportStatusOnDstNode h sock_fd status m net =
     (if sock_fd \<le> 0 then (Inl (NotOK ''invalid socket descriptor''), m, net)
      else
        let cmd = MultiBulkString [''cluster'', ''import'', to_string (migrating_slot m), to_string status];
            x = next_exchange net;
            m1 = m\<lparr>sys_log := sys_log m @ [SockSend sock_fd cmd]\<rparr>
        in case x_send x of
             Inl e \<Rightarrow> (Inl (Prefixed ''failed to send command to the destination node'' e), m1, tl net)
           | Inr _ \<Rightarrow>
               let m2 = m1\<lparr>sys_log := sys_log m1 @ [ReadResponses sock_fd 1]\<rparr> in
               (case CheckSingleResponse (ParseInt_uint64 h) sock_fd (x_replies x) (x_strerror x) of
                  Inl e \<Rightarrow> (Inl (Prefixed ''failed to check the response from the destination node'' e),
                            m2, tl net)
                | Inr _ \<Rightarrow> (Status_OK, m2, tl net)))"

definition StartMigration ::
  "helpers \<Rightarrow> world \<Rightarrow> SlotMigrator \<Rightarrow> exchange list \<Rightarrow> Status \<times> SlotMigrator \<times> exchange list" where
  "StartMigration h w m net =
     (let m1 = m\<lparr>slot_snapshot := w_snapshot w\<rparr> in
      case w_snapshot w of
        None \<Rightarrow> (Inl (NotOK ''failed to create snapshot''), m1, net)
      | Some seq \<Rightarrow>
          let m2 = m1\<lparr>wal_begin_seq := seq\<rparr>;
              m3 = m2\<lparr>last_send_time := 0\<rparr>
          in (case w_connect w of
                Inl e \<Rightarrow> (Inl (NotOK (''failed to connect to the destination node: '' @ e)), m3, net)
              | Inr fd \<Rightarrow>
                  let m4 = dst_fd_Reset fd m3 in
                  (case (if w_requirepass w \<noteq> []
                         then AuthOnDstNode h (dst_fd m4) (w_requirepass w) m4 net
                         else (Status_OK, m4, net)) of
                     (Inl e, m5, net5) \<Rightarrow>
                       (Inl (Prefixed ''failed to authenticate on destination node'' e), m5, net5)
                   | (Inr _, m5, net5) \<Rightarrow>
                       (case SetImportStatusOnDstNode h (dst_fd m5) kImportStart m5 net5 of
                          (Inl e, m6, net6) \<Rightarrow> (Inl (Prefixed errFailedToSetImportStatus e), m6, net6)
                        | (Inr _, m6, net6) \<Rightarrow> (Status_OK, m6, net6)))))"

definition FinishSuccessfulMigration ::
  "helpers \<Rightarrow> world \<Rightarrow> SlotMigrator \<Rightarrow> exchange list \<Rightarrow> Status \<times> SlotMigrator \<times> exchange list" where
  "FinishSuccessfulMigration h w m net =
     (if stop_migration m then (Inl errMigrationTaskCanceled, m, net)
      else
        (case SetImportStatusOnDstNode h (dst_fd m) kImportSuccess m net of
           (Inl e, m1, net1) \<Rightarrow> (Inl (Prefixed errFailedToSetImportStatus e), m1, net1)
         | (Inr _, m1, net1) \<Rightarrow>
             let dst_ip_port = dst_ip m1 @ '':'' @ to_string (dst_port m1) in
             (case w_set_slot_migrated w of
                Inl e \<Rightarrow>
                  (Inl (Prefixed (''failed to set slot '' @ to_string (migrating_slot m1)
                          @ '' as migrated to '' @ dst_ip_port) e), m1, net1)
              | Inr _ \<Rightarrow> (Status_OK, m1\<lparr>migrate_failed_slot := - 1\<rparr>, net1))))"

definition FinishFailedMigration ::
  "helpers \<Rightarrow> SlotMigrator \<Rightarrow> exchange list \<Rightarrow> Status \<times> SlotMigrator \<times> exchange list" where
  "FinishFailedMigration h m net =
     (let m1 = m\<lparr>migrate_failed_slot := migrating_slot m\<rparr>;
          m2 = m1\<lparr>forbidden_slot := - 1\<rparr>
      in case SetImportStatusOnDstNode h (dst_fd m2) kImportFailed m2 net of
           (Inl e, m3, net3) \<Rightarrow> (Inl (Prefixed errFailedToSetImportStatus e), m3, net3)
         | (Inr _, m3, net3) \<Rightarrow> (Status_OK, m3, net3))"

definition IsTerminated :: "SlotMigrator \<Rightarrow> bool" where
  "IsTerminated m = (thread_state m = Terminated)"

text \<open>
  A stage that returns a status that is not OK sends the loop to \<open>kFailed\<close>. An exception
  that leaves a stage leaves \<^verbatim>\<open>RunMigrationProcess\<close>, \<^verbatim>\<open>Loop\<close> and the thread function as
  well: \<^verbatim>\<open>std::terminate\<close> is called and the process ends, with the registers as the
  stage left them.
\<close>

fun stage_failed :: "failure \<Rightarrow> SlotMigrator \<Rightarrow> SlotMigrator" where
  "stage_failed (NotOK msg) m = m\<lparr>current_stage := kFailed\<rparr>"
| "stage_failed (Thrown what) m = m\<lparr>sys_log := sys_log m @ [StdTerminate what]\<rparr>"

text \<open>
  One pass through the \<^verbatim>\<open>while (true)\<close> loop of \<^verbatim>\<open>RunMigrationProcess\<close>. The pass that
  runs \<^verbatim>\<open>Clean\<close> leaves the loop; the stage is then \<open>kNone\<close>.
\<close>

definition RunMigrationProcess_pass ::
  "helpers \<Rightarrow> world \<Rightarrow> SlotMigrator \<Rightarrow> exchange list \<Rightarrow> SlotMigrator \<times> exchange list" where
  "RunMigrationProcess_pass h w m net =
     (if IsTerminated m then (Clean m, net)
      else
        (case current_stage m of
           kStart \<Rightarrow>
             (case StartMigration h w m net of
                (Inr _, m1, net1) \<Rightarrow> (m1\<lparr>current_stage := kSnapshot\<rparr>, net1)
              | (Inl e, m1, net1) \<Rightarrow> (stage_failed e m1, net1))
         | kSnapshot \<Rightarrow>
             (case SendSnapshot h (w_store w) m net of
                (Inr _, m1, net1) \<Rightarrow> (m1\<lparr>current_stage := kWAL\<rparr>, net1)
              | (Inl e, m1, net1) \<Rightarrow> (stage_failed e m1, net1))
         | kWAL \<Rightarrow>
             (case SyncWAL h (w_wal_before w) (w_wal_after w) m net of
                (Inr _, m1, net1) \<Rightarrow> (m1\<lparr>current_stage := kSuccess\<rparr>, net1)
              | (Inl e, m1, net1) \<Rightarrow> (stage_failed e m1, net1))
         | kSuccess \<Rightarrow>
             (case FinishSuccessfulMigration h w m net of
                (Inr _, m1, net1) \<Rightarrow>
                  (m1\<lparr>current_stage := kClean, migration_state := MS_kSuccess\<rparr>, net1)
              | (Inl e, m1, net1) \<Rightarrow> (stage_failed e m1, net1))
         | kFailed \<Rightarrow>
             (case FinishFailedMigration h m net of
                (Inr _, m1, net1) \<Rightarrow>
                  (m1\<lparr>migration_state := MS_kFailed, current_stage := kClean\<rparr>, net1)
              | (Inl e, m1, net1) \<Rightarrow>
                  (case e of
                     NotOK msg \<Rightarrow>
                       (m1\<lparr>migration_state := MS_kFailed, current_stage := kClean\<rparr>, net1)
                   | Thrown what \<Rightarrow> (stage_failed e m1, net1)))
         | kClean \<Rightarrow> (Clean m, net)
         | kNone \<Rightarrow> (Clean m, net)))"

text \<open>
  The migration thread, one step at a time. Started, it marks itself running and enters
  \<^verbatim>\<open>Loop\<close>. With the stage \<open>kNone\<close> it stands at the wait of \<^verbatim>\<open>Loop\<close>: terminated, it
  cleans and returns; with a job, it copies the job's parameters and enters
  \<^verbatim>\<open>RunMigrationProcess\<close>, which sets the stage to \<open>kStart\<close>; with neither, it keeps
  waiting. With any other stage it is inside \<^verbatim>\<open>RunMigrationProcess\<close> and makes one pass.
\<close>

definition thread_step ::
  "helpers \<Rightarrow> world \<Rightarrow> exchange list \<Rightarrow> SlotMigrator \<Rightarrow> SlotMigrator" where
  "thread_step h w net m =
     (if thread_state m = Uninitialized then m\<lparr>thread_state := Running\<rparr>
      else if current_stage m = kNone then
        (if IsTerminated m then Clean m
         else
           (case migration_job m of
              None \<Rightarrow> m
            | Some job \<Rightarrow>
                m\<lparr>dst_ip := job_dst_ip job, dst_port := job_dst_port job,
                   max_migration_speed := job_max_speed job,
                   max_pipeline_size := job_max_pipeline_size job,
                   seq_gap_limit := job_seq_gap_limit job,
                   current_stage := kStart\<rparr>))
      else fst (RunMigrationProcess_pass h w m net))"

text \<open>The destructor, up to the join of the thread.\<close>

definition destroy :: "SlotMigrator \<Rightarrow> SlotMigrator" where
  "destroy m =
     (if thread_state m = Running
      then m\<lparr>stop_migration := True, thread_state := Terminated\<rparr>
      else m)"

text \<open>
  The constructor. The three limits have no initialiser in the class; \<open>uninit\<close> is what
  they hold when the constructor leaves them alone. \<open>is_slave\<close> is \<^verbatim>\<open>svr->IsSlave()\<close>.
\<close>

definition SlotMigrator_new :: "int \<times> int \<times> int \<Rightarrow> bool \<Rightarrow> int \<Rightarrow> int \<Rightarrow> int \<Rightarrow> SlotMigrator" where
  "SlotMigrator_new uninit is_slave speed pipeline_size seq_gap =
     (let m0 = \<lparr> max_migration_speed = fst uninit, max_pipeline_size = fst (snd uninit),
                  seq_gap_limit = snd (snd uninit),
                  current_stage = kNone, thread_state = Uninitialized, migration_state = MS_kNone,
                  current_pipeline_size = 0, last_send_time = 0, migration_job = None,
                  dst_node = [], dst_ip = [], dst_port = - 1, dst_fd = NullFD,
                  forbidden_slot = - 1, migrating_slot = - 1, migrate_failed_slot = - 1,
                  stop_migration = False, slot_snapshot = None, wal_begin_seq = 0, sys_log = [] \<rparr>;
          m1 = (if speed \<ge> 0 then m0\<lparr>max_migration_speed := speed\<rparr> else m0);
          m2 = (if pipeline_size > 0 then m1\<lparr>max_pipeline_size := pipeline_size\<rparr> else m1);
          m3 = (if seq_gap > 0 then m2\<lparr>seq_gap_limit := seq_gap\<rparr> else m2)
      in if is_slave then SetStopMigrationFlag True m3 else m3)"

text \<open>
  The calls that reach the migrator, from any thread, interleaved at the granularity of a
  whole call of \<^verbatim>\<open>PerformSlotMigration\<close> and of one step of the migration thread.
\<close>

datatype event =
    Submit string string int int int int int
  | Thread world "exchange list"
  | Destroy
  | SetStop bool
  | ReleaseForbidden

fun dispatch :: "helpers \<Rightarrow> SlotMigrator \<Rightarrow> event \<Rightarrow> SlotMigrator" where
  "dispatch h m (Submit node_id ip port slot_id speed pipeline_size seq_gap) =
     snd (PerformSlotMigration node_id ip port slot_id speed pipeline_size seq_gap m)"
| "dispatch h m (Thread w net) = thread_step h w net m"
| "dispatch h m Destroy = destroy m"
| "dispatch h m (SetStop v) = SetStopMigrationFlag v m"
| "dispatch h m ReleaseForbidden = ReleaseForbiddenSlot m"

text \<open>After \<^verbatim>\<open>std::terminate\<close> there is no process left, and no call reaches the migrator.\<close>

fun is_StdTerminate :: "sys_call \<Rightarrow> bool" where
  "is_StdTerminate (StdTerminate what) = True"
| "is_StdTerminate NotifyOne = False"
| "is_StdTerminate (ReleaseSnapshot seq) = False"
| "is_StdTerminate (CloseFd fd) = False"
| "is_StdTerminate (SleepFor during) = False"
| "is_StdTerminate (SockSend fd bytes) = False"
| "is_StdTerminate (ReadResponses fd n) = False"

definition process_ended :: "SlotMigrator \<Rightarrow> bool" where
  "process_ended m = list_ex is_StdTerminate (sys_log m)"

definition step :: "helpers \<Rightarrow> SlotMigrator \<Rightarrow> event \<Rightarrow> SlotMigrator" where
  "step h m e = (if process_ended m then m else dispatch h m e)"

definition run :: "helpers \<Rightarrow> SlotMigrator \<Rightarrow> event list \<Rightarrow> SlotMigrator" where
  "run h m evs = foldl (step h) m evs"

text \<open>A submission names a slot of the cluster: an integer in \<open>[0, 16384)\<close>.\<close>

fun valid_event :: "event \<Rightarrow> bool" where
  "valid_event (Submit node_id ip port slot_id speed pipeline_size seq_gap) =
     (0 \<le> slot_id \<and> slot_id < 16384)"
| "valid_event _ = True"

section \<open>Notions used by the properties\<close>

text \<open>The registers the sink, the encoder and the tailer never write.\<close>

definition regs ::
  "SlotMigrator \<Rightarrow> int \<times> SlotMigrationJob option \<times> SlotMigrationStage \<times> ThreadState \<times> bool" where
  "regs m = (migrating_slot m, migration_job m, current_stage m, thread_state m, stop_migration m)"

definition sink_regs ::
  "sink \<Rightarrow> int \<times> SlotMigrationJob option \<times> SlotMigrationStage \<times> ThreadState \<times> bool" where
  "sink_regs snk = regs (fst (snd snk))"

text \<open>The registers no stage of the state machine writes.\<close>

definition job_regs :: "SlotMigrator \<Rightarrow> int \<times> SlotMigrationJob option \<times> ThreadState" where
  "job_regs m = (migrating_slot m, migration_job m, thread_state m)"

text \<open>
  The invariant of the job registers: the thread is inside the state machine only with a
  job, and a job exists only under a running slot.
\<close>

definition job_inv :: "SlotMigrator \<Rightarrow> bool" where
  "job_inv m = ((current_stage m = kNone \<or> migration_job m \<noteq> None) \<and>
               (migration_job m = None \<or> migrating_slot m \<noteq> - 1))"

subsection \<open>Concrete instances\<close>

text \<open>
  An instance of the helpers for running the model on concrete inputs: keys are stored
  unencoded and lengths are decimal.
\<close>

definition plain_helpers :: helpers where
  "plain_helpers =
     \<lparr> ParseInt_uint64 = ParseInt_decimal,
       ParseInt_int = (\<lambda>s. map_option uint (ParseInt_decimal s)),
       Metadata_Decode = (\<lambda>bytes. \<lparr> md_type = kRedisNone, md_expire = 0, md_version = 0, md_size = 0 \<rparr>),
       StreamMetadata_Decode = (\<lambda>bytes. \<lparr> md_type = kRedisStream, md_expire = 0, md_version = 0,
          md_size = 0, last_generated_id = ''0-0'', entries_added = 0, max_deleted_entry_id = ''0-0'' \<rparr>),
       Metadata_Expired = Expired_at 0,
       GetOffsetAfterExpire = (\<lambda>c. 0),
       DecodeFixed64 = (\<lambda>s. 0),
       Float2String_DecodeDouble = (\<lambda>s. s),
       ExtractStreamAddCommand = (\<lambda>k v cmd. Inr (cmd @ [k, v])),
       ComposeSlotKeyPrefix = to_string,
       ExtractNamespaceKey = (\<lambda>k. k),
       SubKeyPrefix = (\<lambda>key version. key),
       GetSubKey = (\<lambda>k. k) \<rparr>"

text \<open>The migrator as the server constructs it on a master, with the default limits.\<close>

definition migrator0 :: SlotMigrator where
  "migrator0 = SlotMigrator_new (0, 0, 0) False
     kDefaultMaxMigrationSpeed kDefaultMaxPipelineSize kDefaultSequenceGapLimit"

text \<open>A world in which the store cannot hand out a snapshot and nothing is stored.\<close>

definition empty_store :: store where
  "empty_store = \<lparr> db_seek = (\<lambda>p. []), metadata_seek = (\<lambda>p. []), stream_seek = (\<lambda>p. []) \<rparr>"

definition quiet_round :: wal_round where
  "quiet_round = \<lparr> latest_seq = 0, wal_iter = Inr None \<rparr>"

definition world0 :: world where
  "world0 = \<lparr> w_snapshot = None, w_connect = Inl ''connection refused'', w_requirepass = [],
               w_set_slot_migrated = Status_OK, w_store = empty_store,
               w_wal_before = (\<lambda>n. quiet_round), w_wal_after = quiet_round \<rparr>"

text \<open>
  A world in which a migration goes through: the store hands out a snapshot, the
  destination accepts the connection and acknowledges each command. The run below
  migrates the (empty) slot 7 to its successful end; the cluster then releases the
  forbidden slot, before the thread reaches \<^verbatim>\<open>Clean\<close>.
\<close>

definition ack_exchange :: exchange where
  "ack_exchange = \<lparr> x_now = 50, x_send = Status_OK, x_sent_at = 60, x_replies = [''+OK'' @ CRLF],
                     x_strerror = ''Resource temporarily unavailable'' \<rparr>"

definition ready_world :: world where
  "ready_world = world0\<lparr>w_snapshot := Some 0, w_connect := Inr 9\<rparr>"

definition released_run :: "event list" where
  "released_run =
     [Thread world0 [], Submit ''node-b'' ''10.0.0.2'' 6666 7 0 0 0, Thread world0 [],
      Thread ready_world [ack_exchange], Thread ready_world [], Thread ready_world [],
      Thread ready_world [ack_exchange], ReleaseForbidden]"

subsection \<open>What reaches the destination\<close>

text \<open>
  The bytes handed to the socket so far, followed by the bytes still in the command
  buffer: everything the encoder has pushed, in order.
\<close>

fun sent_bytes :: "sys_call list \<Rightarrow> string" where
  "sent_bytes [] = []"
| "sent_bytes (SockSend fd bytes # l) = bytes @ sent_bytes l"
| "sent_bytes (_ # l) = sent_bytes l"

definition wire :: "string \<Rightarrow> SlotMigrator \<Rightarrow> string" where
  "wire restore_cmds m = sent_bytes (sys_log m) @ restore_cmds"

subsection \<open>Replies on the stream, in the specification's words\<close>

text \<open>
  ``Blocks until exactly \<open>counter\<close> replies have been parsed successfully.'' One reply at
  the front of the bytes received, as the parser delimits it: a line that begins with
  \<open>+\<close> or \<open>:\<close>, or a header \<open>$len\<close> followed, when \<open>len\<close> is above zero, by \<open>len + 2\<close>
  bytes. The bytes either begin with a complete reply (what follows it is \<open>rest\<close>), or
  with a part of one, or with something the parser refuses.
\<close>

datatype reply_out = Reply string | Partial | Refused failure

definition one_reply :: "(string \<Rightarrow> 64 word option) \<Rightarrow> string \<Rightarrow> reply_out" where
  "one_reply ParseInt buf =
     (case evbuffer_readln buf of
        None \<Rightarrow> Partial
      | Some (line, rest) \<Rightarrow>
          if line0 line = CHR ''-'' then Refused (errInvalidResponse line)
          else if line0 line = CHR ''$'' then
            (case ParseInt (tl line) of
               None \<Rightarrow> Refused errProtocol
             | Some len \<Rightarrow>
                 if len > 0 then
                   (if length rest < unat (len + 2) then Partial
                    else Reply (drop (unat (len + 2)) rest))
                 else Reply rest)
          else if line0 line = CHR ''+'' \<or> line0 line = CHR '':'' then Reply rest
          else Refused (errUnexpectedResponse line))"

text \<open>\<open>k\<close> replies in a row at the front of the bytes.\<close>

fun replies :: "(string \<Rightarrow> 64 word option) \<Rightarrow> nat \<Rightarrow> string \<Rightarrow> reply_out" where
  "replies ParseInt 0 buf = Reply buf"
| "replies ParseInt (Suc k) buf =
     (case one_reply ParseInt buf of
        Reply rest \<Rightarrow> replies ParseInt k rest
      | Partial \<Rightarrow> Partial
      | Refused e \<Rightarrow> Refused e)"

fun is_Reply :: "reply_out \<Rightarrow> bool" where
  "is_Reply (Reply rest) = True"
| "is_Reply Partial = False"
| "is_Reply (Refused e) = False"

text \<open>
  The socket delivers \<open>n\<close> replies: after some read, none up to it empty-handed, the
  bytes received so far begin with \<open>n\<close> complete replies.
\<close>

definition delivers :: "(string \<Rightarrow> 64 word option) \<Rightarrow> nat \<Rightarrow> string list \<Rightarrow> bool" where
  "delivers ParseInt n chunks =
     (\<exists>k\<in>{1..length chunks}. [] \<notin> set (take k chunks) \<and>
        is_Reply (replies ParseInt n (concat (take k chunks))))"

text \<open>What a pass of the parser and a count of replies say about the call's result.\<close>

fun outcome :: "parse_out \<Rightarrow> Status option" where
  "outcome (Return s) = Some s"
| "outcome (ReadAgain pst bulk_len cnt buf) = None"

fun replies_status :: "reply_out \<Rightarrow> Status option" where
  "replies_status (Reply rest) = Some Status_OK"
| "replies_status Partial = None"
| "replies_status (Refused e) = Some (Inl e)"

subsection \<open>The batching rule in the specification's words\<close>

text \<open>
  The arguments one element contributes, per kind; the elements cut into groups of at
  most \<open>n\<close>, in order, all full but possibly the last; and the commands of a key: one
  per group, then PEXPIREAT when the key has an expiry.
\<close>

definition batched_types :: "RedisType set" where
  "batched_types = {kRedisList, kRedisSet, kRedisHash, kRedisZSet, kRedisSortedint}"

definition item_args :: "helpers \<Rightarrow> Metadata \<Rightarrow> string \<times> string \<Rightarrow> string list" where
  "item_args h metadata e =
     (case md_type metadata of
        kRedisSet \<Rightarrow> [GetSubKey h (fst e)]
      | kRedisSortedint \<Rightarrow> [dec_nat (unat (DecodeFixed64 h (GetSubKey h (fst e))))]
      | kRedisZSet \<Rightarrow> [Float2String_DecodeDouble h (snd e), GetSubKey h (fst e)]
      | kRedisHash \<Rightarrow> [GetSubKey h (fst e), snd e]
      | kRedisList \<Rightarrow> [snd e]
      | _ \<Rightarrow> [])"

function groups_of :: "nat \<Rightarrow> 'a list \<Rightarrow> 'a list list" where
  "groups_of n xs = (if n = 0 \<or> xs = [] then [] else take n xs # groups_of n (drop n xs))"
  by pat_completeness auto
termination
  by (relation "measure (\<lambda>(n, xs). length xs)") auto

declare groups_of.simps [simp del]

definition spec_commands :: "string \<Rightarrow> string \<Rightarrow> string list list \<Rightarrow> 64 word \<Rightarrow> string list list" where
  "spec_commands verb key elems expire =
     map (\<lambda>g. verb # key # concat g) (groups_of 16 elems)
     @ (if expire > 0 then [[''PEXPIREAT'', key, dec_nat (unat expire)]] else [])"

text \<open>The elements a complex key has under the snapshot: the iterator's entries under its prefix.\<close>

definition key_elements :: "helpers \<Rightarrow> store \<Rightarrow> string \<Rightarrow> Metadata \<Rightarrow> (string \<times> string) list" where
  "key_elements h db key metadata =
     takeWhile (\<lambda>e. starts_with (fst e) (SubKeyPrefix h key (md_version metadata)))
       (db_seek db (SubKeyPrefix h key (md_version metadata)))"

subsection \<open>Scenario S3: a list of 33 elements\<close>

definition elem :: "nat \<Rightarrow> string" where
  "elem i = ''e'' @ dec_nat i"

definition list33_store :: store where
  "list33_store = \<lparr> db_seek = (\<lambda>p. map (\<lambda>i. (''l:'' @ dec_nat i, elem i)) [0 ..< 33]),
                     metadata_seek = (\<lambda>p. []), stream_seek = (\<lambda>p. []) \<rparr>"

definition list33_md :: Metadata where
  "list33_md = \<lparr> md_type = kRedisList, md_expire = 0, md_version = 1, md_size = 33 \<rparr>"

text \<open>
  The sequence as S3 words it: ``two \<^verbatim>\<open>RPUSH l e0...e15\<close>, one \<^verbatim>\<open>RPUSH l e16...e31\<close>,
  one \<^verbatim>\<open>RPUSH l e32\<close>'', with the verb as the code spells it.
\<close>

definition S3_described :: "string \<Rightarrow> string list list" where
  "S3_described verb =
     [verb # ''l'' # map elem [0 ..< 16], verb # ''l'' # map elem [0 ..< 16],
      verb # ''l'' # map elem [16 ..< 32], [verb, ''l'', elem 32]]"

definition S3_produced :: "string list list" where
  "S3_produced =
     [''rpush'' # ''l'' # map elem [0 ..< 16], ''rpush'' # ''l'' # map elem [16 ..< 32],
      [''rpush'', ''l'', elem 32]]"

subsection \<open>Further concrete inputs\<close>

text \<open>A migrator configured with a pipeline of 3000 commands at 4096 commands per second.\<close>

definition wide_migrator :: SlotMigrator where
  "wide_migrator = migrator0\<lparr>max_migration_speed := 4096, max_pipeline_size := 3000,
      last_send_time := 1700000000000000\<rparr>"

text \<open>
  A migrator with two commands in the pipeline, and a destination that acknowledges both
  (\<open>ok_exchange\<close>, in two reads); \<open>ack_exchange\<close> above acknowledges only one.
\<close>

definition flushing_migrator :: SlotMigrator where
  "flushing_migrator = migrator0\<lparr>current_pipeline_size := 2, dst_fd := 9, max_migration_speed := 0\<rparr>"

definition ok_exchange :: exchange where
  "ok_exchange = \<lparr> x_now = 50, x_send = Status_OK, x_sent_at = 60,
                    x_replies = [''+OK'' @ CRLF @ '':1'', CRLF],
                    x_strerror = ''Resource temporarily unavailable'' \<rparr>"

text \<open>
  A write storm: in every round the store is 20000 sequence numbers ahead of the last
  round, in one batch that holds nothing for the migrating slot.
\<close>

definition storm :: "nat \<Rightarrow> wal_round" where
  "storm i = \<lparr> latest_seq = 20000 * (of_nat i + 1),
               wal_iter = Inr (Some [\<lparr> b_sequence = 20000 * of_nat i + 1, b_count = 20000,
                                        b_commands = Some [] \<rparr>]) \<rparr>"

text \<open>Helpers under which the stored key is a hash, expired at time 10, empty or not.\<close>

definition expired_hash_helpers :: "32 word \<Rightarrow> helpers" where
  "expired_hash_helpers n =
     plain_helpers\<lparr> Metadata_Decode :=
                       (\<lambda>bytes. \<lparr> md_type = kRedisHash, md_expire = 5, md_version = 1, md_size = n \<rparr>),
                    Metadata_Expired := Expired_at 10 \<rparr>"

section \<open>Properties\<close>

subsection \<open>Evaluation lemmas\<close>

lemma migrator0_eq:
  "migrator0 = \<lparr> max_migration_speed = 4096, max_pipeline_size = 16, seq_gap_limit = 10000,
       current_stage = kNone, thread_state = Uninitialized, migration_state = MS_kNone,
       current_pipeline_size = 0, last_send_time = 0, migration_job = None,
       dst_node = [], dst_ip = [], dst_port = - 1, dst_fd = - 1,
       forbidden_slot = - 1, migrating_slot = - 1, migrate_failed_slot = - 1,
       stop_migration = False, slot_snapshot = None, wal_begin_seq = 0, sys_log = [] \<rparr>"
  by (simp add: migrator0_def SlotMigrator_new_def Let_def kDefaultMaxMigrationSpeed_def
      kDefaultMaxPipelineSize_def kDefaultSequenceGapLimit_def NullFD_def)

lemma to_int16_slot: "0 \<le> x \<Longrightarrow> x < 16384 \<Longrightarrow> to_int16 x = x"
  by (simp add: to_int16_def)

lemma Clean_eq:
  "Clean m = m\<lparr>current_stage := kNone, current_pipeline_size := 0, migration_job := None,
               dst_fd := NullFD, migrating_slot := - 1, stop_migration := False,
               slot_snapshot := None, wal_begin_seq := 0,
               sys_log := sys_log m
                  @ (case slot_snapshot m of Some snap \<Rightarrow> [ReleaseSnapshot snap] | None \<Rightarrow> [])
                  @ (if dst_fd m \<noteq> NullFD then [CloseFd (dst_fd m)] else [])\<rparr>"
  by (cases "slot_snapshot m")
     (simp_all add: Clean_def Let_def dst_fd_Reset_def SetStopMigrationFlag_def)

lemma parse_buffer_ArrayLen:
  "parse_buffer ParseInt total_n ArrayLen bulk_len cnt buf =
          (case evbuffer_readln buf of
             None \<Rightarrow> ReadAgain ArrayLen bulk_len cnt buf
           | Some (line, rest) \<Rightarrow>
               if line0 line = CHR ''-'' then Return (Inl (errInvalidResponse line))
               else if line0 line = CHR ''$'' then
                 (case ParseInt (tl line) of
                    None \<Rightarrow> Return (Inl errProtocol)
                  | Some len \<Rightarrow>
                      parse_buffer ParseInt total_n (if len > 0 then BulkData else OneRspEnd) len cnt rest)
               else if line0 line = CHR ''+'' \<or> line0 line = CHR '':'' then
                 parse_buffer ParseInt total_n OneRspEnd bulk_len cnt rest
               else Return (Inl (errUnexpectedResponse line)))"
  by (subst parse_buffer.simps) simp

lemma parse_buffer_BulkData:
  "parse_buffer ParseInt total_n BulkData bulk_len cnt buf =
     (if length buf < unat (bulk_len + 2) then ReadAgain BulkData bulk_len cnt buf
      else parse_buffer ParseInt total_n OneRspEnd 0 cnt (drop (unat (bulk_len + 2)) buf))"
  by (subst parse_buffer.simps) simp

lemma parse_buffer_OneRspEnd:
  "parse_buffer ParseInt total_n OneRspEnd bulk_len cnt buf =
     (if cnt + 1 \<ge> total_n then Return Status_OK
      else parse_buffer ParseInt total_n ArrayLen bulk_len (cnt + 1) buf)"
  by (subst parse_buffer.simps) simp

lemmas parse_buffer_steps = parse_buffer_ArrayLen parse_buffer_BulkData parse_buffer_OneRspEnd

subsection \<open>What the sink, the encoder and the tailer leave alone\<close>

lemma sink_regs_simp [simp]: "sink_regs (c, m, n) = regs m"
  by (simp add: sink_regs_def)

lemma regs_incr_pipeline [simp]: "regs (incr_pipeline m) = regs m"
  by (simp add: regs_def incr_pipeline_def)

lemma regs_ApplyMigrationSpeedLimit [simp]: "regs (ApplyMigrationSpeedLimit t m) = regs m"
  by (simp add: regs_def ApplyMigrationSpeedLimit_def Let_def)

lemma regs_SendCmdsPipelineIfNeed:
  "sink_regs (snd (SendCmdsPipelineIfNeed P c need m net)) = regs m"
  by (simp add: SendCmdsPipelineIfNeed_def Let_def split: sum.splits)
     (simp add: regs_def ApplyMigrationSpeedLimit_def Let_def)

lemma regs_SendCmdsPipelineIfNeed':
  "SendCmdsPipelineIfNeed P c need m net = (r, snk) \<Longrightarrow> sink_regs snk = regs m"
  using regs_SendCmdsPipelineIfNeed [of P c need m net] by simp

lemma regs_MigrateSimpleKey:
  "sink_regs (snd (MigrateSimpleKey h key md bytes snk)) = sink_regs snk"
  by (cases snk) (auto simp add: MigrateSimpleKey_def Let_def split: sum.splits prod.splits
       dest!: regs_SendCmdsPipelineIfNeed')

lemma regs_bitmap_bits:
  "regs (snd (snd (bitmap_bits index byte_idx byte bits acc))) = regs (snd (snd acc))"
  by (induction index byte_idx byte bits acc rule: bitmap_bits.induct) (simp_all add: Let_def)

lemma regs_bitmap_bytes:
  "sink_regs (snd (bitmap_bytes h index byte_idx fragment user_cmd snk)) = sink_regs snk"
proof (induction h index byte_idx fragment user_cmd snk rule: bitmap_bytes.induct)
  case (1 h index byte_idx user_cmd snk)
  then show ?case by simp
next
  case (2 h index byte_idx byte fragment user_cmd restore_cmds m net)
  show ?case
  proof (cases "(of_char byte :: nat) \<noteq> 0")
    case False
    with 2 show ?thesis by simp
  next
    case True
    obtain u1 r1 m1 where bb: "bitmap_bits index byte_idx byte [0 ..< 8] (user_cmd, restore_cmds, m) = (u1, r1, m1)"
      by (cases "bitmap_bits index byte_idx byte [0 ..< 8] (user_cmd, restore_cmds, m)") auto
    have m1: "regs m1 = regs m"
      using regs_bitmap_bits [of index byte_idx byte "[0 ..< 8]" "(user_cmd, restore_cmds, m)"] bb by simp
    obtain s snk' where sc: "SendCmdsPipelineIfNeed (ParseInt_uint64 h) r1 False m1 net = (s, snk')"
      by (cases "SendCmdsPipelineIfNeed (ParseInt_uint64 h) r1 False m1 net") auto
    have snk': "sink_regs snk' = regs m1" using regs_SendCmdsPipelineIfNeed' [OF sc] .
    show ?thesis
    proof (cases s)
      case (Inl e)
      with True bb sc snk' m1 show ?thesis by simp
    next
      case (Inr u)
      with True bb sc snk' m1 2(1) [OF True bb [symmetric] refl sc [symmetric] Inr] show ?thesis
        by simp
    qed
  qed
qed


lemma regs_MigrateBitmapKey:
  "sink_regs (snd (MigrateBitmapKey h ikey fragment user_cmd snk)) = sink_regs snk"
  by (simp add: MigrateBitmapKey_def regs_bitmap_bytes split: option.splits)

lemma regs_complex_item:
  "sink_regs (snd (complex_item h md ikey ivalue user_cmd snk)) = sink_regs snk"
proof -
  have "sink_regs (snd (MigrateBitmapKey h ikey ivalue user_cmd snk)) = sink_regs snk"
    by (rule regs_MigrateBitmapKey)
  then show ?thesis
    by (cases "md_type md") (auto simp add: complex_item_def split: prod.splits sum.splits)
qed

lemma regs_complex_item':
  "complex_item h md ikey ivalue user_cmd (c, m, n) = (r, (c', m', n')) \<Longrightarrow> regs m' = regs m"
  using regs_complex_item [of h md ikey ivalue user_cmd "(c, m, n)"] by simp

lemma regs_SendCmds'':
  "SendCmdsPipelineIfNeed P c need m net = (r, (c', m', n')) \<Longrightarrow> regs m' = regs m"
  using regs_SendCmdsPipelineIfNeed [of P c need m net] by simp

lemma regs_complex_loop:
  "(complex_loop h md pre es user_cmd item_count snk = Inl (s, snk') \<longrightarrow> sink_regs snk' = sink_regs snk) \<and>
   (complex_loop h md pre es user_cmd item_count snk = Inr (u, i, snk') \<longrightarrow> sink_regs snk' = sink_regs snk)"
  by (induction h md pre es user_cmd item_count snk rule: complex_loop.induct)
     (auto split: if_splits prod.splits sum.splits dest!: regs_complex_item' regs_SendCmds'')

lemma regs_MigrateComplexKey:
  "MigrateComplexKey h db key md snk = (s, snk') \<Longrightarrow> sink_regs snk' = sink_regs snk"
  using regs_complex_loop [of h md "SubKeyPrefix h key (md_version md)"
          "db_seek db (SubKeyPrefix h key (md_version md))" "[type_to_cmd (md_type md), key]" 0 snk]
  by (auto simp add: MigrateComplexKey_def Let_def split: if_splits prod.splits sum.splits
        dest!: regs_SendCmds'' regs_SendCmdsPipelineIfNeed')

lemma regs_stream_loop:
  "(stream_loop h pre es user_cmd snk = Inl (s, snk') \<longrightarrow> sink_regs snk' = sink_regs snk) \<and>
   (stream_loop h pre es user_cmd snk = Inr (u, snk') \<longrightarrow> sink_regs snk' = sink_regs snk)"
  by (induction h pre es user_cmd snk rule: stream_loop.induct)
     (auto split: if_splits prod.splits sum.splits dest!: regs_SendCmds'' regs_SendCmdsPipelineIfNeed')

lemma regs_MigrateStream:
  "MigrateStream h db key md snk = (s, snk') \<Longrightarrow> sink_regs snk' = sink_regs snk"
  using regs_stream_loop [of h "SubKeyPrefix h key (md_version md)"
          "stream_seek db (SubKeyPrefix h key (md_version md))" "[type_to_cmd (md_type md), key]" snk]
  by (auto simp add: MigrateStream_def Let_def split: if_splits prod.splits sum.splits
        dest!: regs_SendCmds'' regs_SendCmdsPipelineIfNeed')

lemma regs_MigrateSimpleKey':
  "MigrateSimpleKey h key md bytes snk = (s, snk') \<Longrightarrow> sink_regs snk' = sink_regs snk"
  using regs_MigrateSimpleKey [of h key md bytes snk] by simp

lemma regs_MigrateOneKey:
  "MigrateOneKey h db key enc snk = (s, snk') \<Longrightarrow> sink_regs snk' = sink_regs snk"
  by (cases "md_type (Metadata_Decode h enc)")
     (auto simp add: MigrateOneKey_def Let_def split: if_splits prod.splits sum.splits
        dest!: regs_MigrateSimpleKey' regs_MigrateStream regs_MigrateComplexKey)

lemma regs_MigrateOneKey':
  "MigrateOneKey h db key enc (c, m, n) = (s, (c', m', n')) \<Longrightarrow> regs m' = regs m"
  by (drule regs_MigrateOneKey) simp

lemma regs_snapshot_loop:
  "(snapshot_loop h db pre es snk = Inl (s, snk') \<longrightarrow> sink_regs snk' = sink_regs snk) \<and>
   (snapshot_loop h db pre es snk = Inr snk' \<longrightarrow> sink_regs snk' = sink_regs snk)"
  by (induction h db pre es snk rule: snapshot_loop.induct)
     (auto simp add: Let_def split: if_splits prod.splits sum.splits dest!: regs_MigrateOneKey')

lemma regs_SendSnapshot:
  "SendSnapshot h db m net = (s, m', net') \<Longrightarrow> regs m' = regs m"
  using regs_snapshot_loop [of h db "ComposeSlotKeyPrefix h (migrating_slot m)"
          "metadata_seek db (ComposeSlotKeyPrefix h (migrating_slot m))" "([], m, net)"]
  by (auto simp add: SendSnapshot_def Let_def split: if_splits prod.splits sum.splits
        dest!: regs_SendCmds'' regs_SendCmdsPipelineIfNeed')

lemma regs_fold_cmds:
  "regs (snd (fold (\<lambda>it (commands, m). (commands @ it, incr_pipeline m)) cmds acc)) = regs (snd acc)"
  by (induction cmds arbitrary: acc) (auto split: prod.splits)

lemma regs_GenerateCmdsFromBatch:
  "GenerateCmdsFromBatch b (c, m) = Inr (c', m') \<Longrightarrow> regs m' = regs m"
  using regs_fold_cmds [of _ "(c, m)"]
  by (auto simp add: GenerateCmdsFromBatch_def split: option.splits) (metis snd_conv)

lemma regs_wal_loop:
  "(wal_loop h end_seq next_seq bs snk = Inl (s, snk') \<longrightarrow> sink_regs snk' = sink_regs snk) \<and>
   (wal_loop h end_seq next_seq bs snk = Inr snk' \<longrightarrow> sink_regs snk' = sink_regs snk)"
  by (induction h end_seq next_seq bs snk rule: wal_loop.induct)
     (auto simp add: Let_def split: if_splits prod.splits sum.splits
        dest!: regs_GenerateCmdsFromBatch regs_SendCmds'')

lemma regs_MigrateIncrementData:
  "MigrateIncrementData h iter end_seq m net = (s, m', net') \<Longrightarrow> regs m' = regs m"
  using regs_wal_loop [of h end_seq "wal_begin_seq m + 1" "the iter" "([], m, net)"]
  by (auto simp add: MigrateIncrementData_def split: option.splits list.splits prod.splits sum.splits
        dest!: regs_SendCmds'' regs_SendCmdsPipelineIfNeed')

lemma regs_wal_begin_seq [simp]: "regs (m\<lparr>wal_begin_seq := x\<rparr>) = regs m"
  by (simp add: regs_def)

lemma regs_before_loop:
  "before_loop h wal count m net = (s, n, m', net') \<Longrightarrow> regs m' = regs m"
proof (induction h wal count m net rule: before_loop.induct)
  case (1 h wal count m net)
  show ?case
    using "1.prems" "1.IH"
    by (subst (asm) before_loop.simps)
       (auto simp add: Let_def split: if_splits prod.splits sum.splits dest!: regs_MigrateIncrementData)
qed


subsection \<open>What the stages of the state machine leave alone\<close>

lemma job_regs_of_regs: "regs m' = regs m \<Longrightarrow> job_regs m' = job_regs m"
  by (simp add: regs_def job_regs_def)

lemma job_regs_SetImportStatusOnDstNode:
  "SetImportStatusOnDstNode h fd st m net = (s, m', net') \<Longrightarrow> job_regs m' = job_regs m"
  by (auto simp add: SetImportStatusOnDstNode_def Let_def job_regs_def split: if_splits sum.splits)

lemma job_regs_AuthOnDstNode:
  "AuthOnDstNode h fd pw m net = (s, m', net') \<Longrightarrow> job_regs m' = job_regs m"
  by (auto simp add: AuthOnDstNode_def Let_def job_regs_def split: if_splits sum.splits)

lemma job_regs_dst_fd_Reset [simp]: "job_regs (dst_fd_Reset fd m) = job_regs m"
  by (simp add: dst_fd_Reset_def job_regs_def)

lemma job_regs_StartMigration:
  "StartMigration h w m net = (s, m', net') \<Longrightarrow> job_regs m' = job_regs m"
proof -
  have base: "\<And>a b c. job_regs (m\<lparr>slot_snapshot := a, wal_begin_seq := b, last_send_time := c\<rparr>) = job_regs m"
             "\<And>a. job_regs (m\<lparr>slot_snapshot := a\<rparr>) = job_regs m"
    by (simp_all add: job_regs_def)
  assume "StartMigration h w m net = (s, m', net')"
  then show ?thesis
    by (auto simp add: StartMigration_def Let_def base
          split: option.splits sum.splits prod.splits if_splits
          dest!: job_regs_SetImportStatusOnDstNode job_regs_AuthOnDstNode)
qed

lemma job_regs_SyncWAL:
  "SyncWAL h wb wa m net = (s, m', net') \<Longrightarrow> job_regs m' = job_regs m"
proof -
  have fs: "\<And>x m. job_regs (SetForbiddenSlot x m) = job_regs m"
    by (simp add: SetForbiddenSlot_def job_regs_def)
  assume "SyncWAL h wb wa m net = (s, m', net')"
  then show ?thesis
    by (auto simp add: SyncWAL_def SyncWALBeforeForbiddingSlot_def SyncWALAfterForbiddingSlot_def Let_def fs
          split: sum.splits prod.splits if_splits
          dest!: regs_before_loop regs_MigrateIncrementData job_regs_of_regs)
qed

lemma job_regs_FinishSuccessfulMigration:
  "FinishSuccessfulMigration h w m net = (s, m', net') \<Longrightarrow> job_regs m' = job_regs m"
  by (auto simp add: FinishSuccessfulMigration_def Let_def
          split: sum.splits prod.splits if_splits dest!: job_regs_SetImportStatusOnDstNode)
     (simp add: job_regs_def)

lemma job_regs_FinishFailedMigration:
  "FinishFailedMigration h m net = (s, m', net') \<Longrightarrow> job_regs m' = job_regs m"
  by (auto simp add: FinishFailedMigration_def Let_def
          split: sum.splits prod.splits if_splits dest!: job_regs_SetImportStatusOnDstNode)
     (simp_all add: job_regs_def)

subsection \<open>The job invariant\<close>

lemma job_inv_Clean: "job_inv (Clean m)"
  by (cases "slot_snapshot m")
     (simp_all add: job_inv_def Clean_def Let_def dst_fd_Reset_def SetStopMigrationFlag_def)

lemma job_inv_stage:
  "job_inv m \<Longrightarrow> current_stage m \<noteq> kNone \<Longrightarrow> job_regs m' = job_regs m \<Longrightarrow> job_inv m'"
  by (auto simp add: job_inv_def job_regs_def)

lemma job_regs_upd [simp]:
  "job_regs (m\<lparr>current_stage := x\<rparr>) = job_regs m"
  "job_regs (m\<lparr>migration_state := y\<rparr>) = job_regs m"
  "job_regs (m\<lparr>sys_log := z\<rparr>) = job_regs m"
  by (simp_all add: job_regs_def)

lemma job_regs_stage_failed [simp]: "job_regs (stage_failed e m) = job_regs m"
  by (cases e) (simp_all add: job_regs_def)

lemma job_inv_pass:
  assumes "job_inv m" "current_stage m \<noteq> kNone"
  shows "job_inv (fst (RunMigrationProcess_pass h w m net))"
proof (cases "IsTerminated m \<or> current_stage m = kClean")
  case True
  then show ?thesis
    by (auto simp add: RunMigrationProcess_pass_def job_inv_Clean)
next
  case False
  have "job_regs (fst (RunMigrationProcess_pass h w m net)) = job_regs m"
    using False assms(2)
    by (cases "current_stage m")
       (auto simp add: RunMigrationProcess_pass_def split: prod.splits sum.splits failure.splits
          dest!: job_regs_StartMigration regs_SendSnapshot job_regs_of_regs job_regs_SyncWAL
                 job_regs_FinishSuccessfulMigration job_regs_FinishFailedMigration)
  with assms show ?thesis by (rule job_inv_stage)
qed

lemma job_inv_thread_step: "job_inv m \<Longrightarrow> job_inv (thread_step h w net m)"
  by (auto simp add: thread_step_def job_inv_Clean job_inv_pass split: option.splits)
     (auto simp add: job_inv_def)

lemma job_inv_dispatch: "job_inv m \<Longrightarrow> valid_event e \<Longrightarrow> job_inv (dispatch h m e)"
proof (cases e)
  case (Submit node_id ip port slot_id speed pipeline_size seq_gap)
  assume "job_inv m" "valid_event e"
  with Submit show ?thesis
    by (auto simp add: PerformSlotMigration_def Let_def job_inv_def to_int16_slot)
next
  case (Thread w net)
  assume "job_inv m"
  with Thread show ?thesis by (simp add: job_inv_thread_step)
qed (auto simp add: job_inv_def destroy_def SetStopMigrationFlag_def ReleaseForbiddenSlot_def)

lemma job_inv_step: "job_inv m \<Longrightarrow> valid_event e \<Longrightarrow> job_inv (step h m e)"
  by (simp add: step_def job_inv_dispatch)

lemma job_inv_run:
  "job_inv m \<Longrightarrow> \<forall>e \<in> set evs. valid_event e \<Longrightarrow> job_inv (run h m evs)"
  unfolding run_def
  by (induction evs arbitrary: m) (simp_all add: job_inv_step)


lemma job_inv_new: "job_inv (SlotMigrator_new uninit is_slave speed pipeline_size seq_gap)"
  by (simp add: job_inv_def SlotMigrator_new_def Let_def SetStopMigrationFlag_def)

subsection \<open>An exception in the migration thread\<close>

text \<open>
  A stored string shorter than the offset of its value makes \<^verbatim>\<open>substr\<close> throw, whatever
  the sink holds. A stage that an exception leaves ends the process, and after that no
  event changes the migrator.
\<close>

lemma MigrateSimpleKey_throws:
  "length bytes < GetOffsetAfterExpire h (line0 bytes) \<Longrightarrow>
   MigrateSimpleKey h key metadata bytes snk = (Inl errOutOfRange, snk)"
  by (cases snk) (simp add: MigrateSimpleKey_def Let_def)

lemma process_ended_stage_failed: "process_ended (stage_failed (Thrown what) m)"
  by (simp add: process_ended_def)

lemma run_process_ended: "process_ended m \<Longrightarrow> run h m evs = m"
  unfolding run_def by (induction evs) (simp_all add: step_def)

subsection \<open>Claims on the job registers\<close>

text \<open>
  C1, as the code has it. In every state the migrator reaches from its construction
  under any interleaving of submissions for slots of the cluster, steps of the migration
  thread (with any answers of the store, the network and the cluster), changes of the
  stop flag, releases of the forbidden slot and the destructor: when the running-slot
  register is -1 the stage is None and no job is stored; the thread is inside the state
  machine only while a job is stored; and a submission is accepted only when no job is
  stored and the stage is None, so an accepted job never replaces another one. The
  converse direction of the claim's equivalence does not hold: see the counterexample.
\<close>

theorem C1_job_invariant:
  assumes "\<forall>e \<in> set evs. valid_event e"
  shows "let m = run h (SlotMigrator_new uninit is_slave speed pipeline_size seq_gap) evs in
           (migrating_slot m = - 1 \<longrightarrow> current_stage m = kNone \<and> migration_job m = None) \<and>
           (current_stage m \<noteq> kNone \<longrightarrow> migration_job m \<noteq> None) \<and>
           (IsOK (fst (PerformSlotMigration node_id ip port slot_id sp pl sg m)) \<longrightarrow>
              migration_job m = None \<and> current_stage m = kNone)"
proof -
  define m where "m = run h (SlotMigrator_new uninit is_slave speed pipeline_size seq_gap) evs"
  have inv: "job_inv m"
    unfolding m_def using job_inv_new assms by (rule job_inv_run)
  have acc: "IsOK (fst (PerformSlotMigration node_id ip port slot_id sp pl sg m)) \<Longrightarrow> migrating_slot m = - 1"
    by (auto simp add: PerformSlotMigration_def IsOK_def split: if_splits)
  from inv acc show ?thesis
    unfolding m_def [symmetric] Let_def job_inv_def by auto
qed

text \<open>
  A run of C1's theorem: the thread starts, slot 5 is submitted, the thread picks the
  job up and fails to start it (no snapshot). The thread is then at stage Failed, with
  the job stored and the running slot 5.
\<close>

theorem C1_job_invariant_witness:
  "current_stage (run plain_helpers (SlotMigrator_new (0, 0, 0) False 4096 16 10000)
      [Thread world0 [], Submit ''node-b'' ''10.0.0.2'' 6666 5 0 0 0, Thread world0 [], Thread world0 []])
     = kFailed \<and>
   migrating_slot (run plain_helpers (SlotMigrator_new (0, 0, 0) False 4096 16 10000)
      [Thread world0 [], Submit ''node-b'' ''10.0.0.2'' 6666 5 0 0 0, Thread world0 [], Thread world0 []])
     = 5 \<and>
   migration_job (run plain_helpers (SlotMigrator_new (0, 0, 0) False 4096 16 10000)
      [Thread world0 [], Submit ''node-b'' ''10.0.0.2'' 6666 5 0 0 0, Thread world0 [], Thread world0 []])
     \<noteq> None"
proof -
  let ?evs = "[Thread world0 [], Submit ''node-b'' ''10.0.0.2'' 6666 5 0 0 0, Thread world0 [], Thread world0 []]"
  let ?m = "run plain_helpers (SlotMigrator_new (0, 0, 0) False 4096 16 10000) ?evs"
  have valid: "\<forall>e \<in> set ?evs. valid_event e" by simp
  have stage: "current_stage ?m = kFailed"
    by (simp add: run_def step_def process_ended_def SlotMigrator_new_def Let_def thread_step_def
          PerformSlotMigration_def to_int16_def IsTerminated_def RunMigrationProcess_pass_def
          StartMigration_def world0_def make_job_def)
  have slot: "migrating_slot ?m = 5"
    by (simp add: run_def step_def process_ended_def SlotMigrator_new_def Let_def thread_step_def
          PerformSlotMigration_def to_int16_def IsTerminated_def RunMigrationProcess_pass_def
          StartMigration_def world0_def make_job_def)
  from C1_job_invariant [OF valid, of plain_helpers "(0, 0, 0)" False 4096 16 10000] stage slot
  show ?thesis by (simp add: Let_def)
qed

text \<open>
  C1 as stated fails: right after a submission is accepted, and until the thread picks
  the job up, the running-slot register holds the slot while the stage is still None.
\<close>

theorem C1_iff_counterexample:
  "\<not> (migrating_slot (run plain_helpers migrator0 [Submit ''node-b'' ''10.0.0.2'' 6666 5 0 0 0]) = - 1
       \<longleftrightarrow> current_stage (run plain_helpers migrator0 [Submit ''node-b'' ''10.0.0.2'' 6666 5 0 0 0]) = kNone)"
  by (simp add: run_def step_def process_ended_def PerformSlotMigration_def Let_def migrator0_eq
        to_int16_def)

text \<open>
  C3. A call of PerformSlotMigration: with the running-slot register not -1 it fails as
  busy and changes nothing; otherwise, with the requested slot equal to the forbidden
  slot, it fails as already migrated and leaves the running-slot register at -1 (the
  whole state is as before); otherwise it returns OK with the outcome Started, the job
  stored, the destination node recorded, the running slot set, and the thread signalled.
\<close>

theorem C3_PerformSlotMigration:
  "(migrating_slot m \<noteq> - 1 \<longrightarrow>
      PerformSlotMigration node_id ip port slot_id speed pipeline_size seq_gap m = (Inl errBusy, m)) \<and>
   (migrating_slot m = - 1 \<and> forbidden_slot m = slot_id \<longrightarrow>
      PerformSlotMigration node_id ip port slot_id speed pipeline_size seq_gap m
        = (Inl errAlreadyMigrated, m)) \<and>
   (migrating_slot m = - 1 \<and> forbidden_slot m \<noteq> slot_id \<longrightarrow>
      PerformSlotMigration node_id ip port slot_id speed pipeline_size seq_gap m =
          (Status_OK, m\<lparr>migration_state := MS_kStarted,
                          migration_job := Some (make_job slot_id ip port
                             (if speed \<le> 0 then 0 else speed)
                             (if pipeline_size \<le> 0 then 16 else pipeline_size)
                             (if seq_gap \<le> 0 then 10000 else seq_gap)),
                          dst_node := node_id,
                          migrating_slot := to_int16 slot_id, sys_log := sys_log m @ [NotifyOne]\<rparr>))"
  by (simp add: PerformSlotMigration_def Let_def kDefaultMaxPipelineSize_def kDefaultSequenceGapLimit_def)

theorem C3_PerformSlotMigration_witness:
  "PerformSlotMigration ''n1'' ''10.0.0.2'' 6666 7 0 0 0 (migrator0\<lparr>migrating_slot := 3\<rparr>)
     = (Inl errBusy, migrator0\<lparr>migrating_slot := 3\<rparr>) \<and>
   PerformSlotMigration ''n1'' ''10.0.0.2'' 6666 7 0 0 0 (migrator0\<lparr>forbidden_slot := 7\<rparr>)
     = (Inl errAlreadyMigrated, migrator0\<lparr>forbidden_slot := 7\<rparr>) \<and>
   PerformSlotMigration ''n1'' ''10.0.0.2'' 6666 7 0 0 0 migrator0
     = (Status_OK, migrator0\<lparr>migration_state := MS_kStarted,
          migration_job := Some (make_job 7 ''10.0.0.2'' 6666 0 16 10000),
          dst_node := ''n1'', migrating_slot := 7, sys_log := [NotifyOne]\<rparr>)"
  using C3_PerformSlotMigration [where m = "migrator0\<lparr>migrating_slot := 3\<rparr>" and node_id = "''n1''"
          and ip = "''10.0.0.2''" and port = 6666 and slot_id = 7 and speed = 0
          and pipeline_size = 0 and seq_gap = 0]
        C3_PerformSlotMigration [where m = "migrator0\<lparr>forbidden_slot := 7\<rparr>" and node_id = "''n1''"
          and ip = "''10.0.0.2''" and port = 6666 and slot_id = 7 and speed = 0
          and pipeline_size = 0 and seq_gap = 0]
        C3_PerformSlotMigration [where m = migrator0 and node_id = "''n1''"
          and ip = "''10.0.0.2''" and port = 6666 and slot_id = 7 and speed = 0
          and pipeline_size = 0 and seq_gap = 0]
  by (simp add: migrator0_eq to_int16_def)

text \<open>
  C8. When PerformSlotMigration accepts a submission, the job it stores carries the
  normalised parameters: a speed of 0 or less is stored as 0 (which is not the default
  speed 4096), a pipeline size of 0 or less as 16, a sequence gap of 0 or less as 10000;
  positive values are stored as given.
\<close>

theorem C8_job_parameters_normalised:
  assumes "PerformSlotMigration node_id ip port slot_id speed pipeline_size seq_gap m = (Status_OK, m')"
  shows "\<exists>job. migration_job m' = Some job \<and>
           job_max_speed job = (if speed \<le> 0 then 0 else speed) \<and>
           job_max_pipeline_size job = (if pipeline_size \<le> 0 then 16 else pipeline_size) \<and>
           job_seq_gap_limit job = (if seq_gap \<le> 0 then 10000 else seq_gap) \<and>
           (speed \<le> 0 \<longrightarrow> job_max_speed job \<noteq> kDefaultMaxMigrationSpeed)"
  using assms
  by (auto simp add: PerformSlotMigration_def Let_def make_job_def kDefaultMaxPipelineSize_def
      kDefaultSequenceGapLimit_def kDefaultMaxMigrationSpeed_def split: if_splits)

theorem C8_job_parameters_normalised_witness:
  "PerformSlotMigration ''n1'' ''10.0.0.2'' 6666 7 (- 5) 0 (- 1) migrator0
     = (Status_OK, migrator0\<lparr>migration_state := MS_kStarted,
          migration_job := Some (make_job 7 ''10.0.0.2'' 6666 0 16 10000),
          dst_node := ''n1'', migrating_slot := 7, sys_log := [NotifyOne]\<rparr>) \<and>
   (\<exists>job. migration_job (migrator0\<lparr>migration_state := MS_kStarted,
          migration_job := Some (make_job 7 ''10.0.0.2'' 6666 0 16 10000),
          dst_node := ''n1'', migrating_slot := 7, sys_log := [NotifyOne]\<rparr>) = Some job \<and>
      job_max_speed job = 0 \<and> job_max_pipeline_size job = 16 \<and> job_seq_gap_limit job = 10000 \<and>
      job_max_speed job \<noteq> kDefaultMaxMigrationSpeed)"
proof -
  have run: "PerformSlotMigration ''n1'' ''10.0.0.2'' 6666 7 (- 5) 0 (- 1) migrator0
     = (Status_OK, migrator0\<lparr>migration_state := MS_kStarted,
          migration_job := Some (make_job 7 ''10.0.0.2'' 6666 0 16 10000),
          dst_node := ''n1'', migrating_slot := 7, sys_log := [NotifyOne]\<rparr>)"
    by (simp add: PerformSlotMigration_def Let_def migrator0_eq to_int16_def
         kDefaultMaxPipelineSize_def kDefaultSequenceGapLimit_def)
  from C8_job_parameters_normalised [OF run] run show ?thesis by simp
qed

text \<open>
  C10, as the code has it. Clean writes the per-job state only: the snapshot is released
  when there is one, the stage becomes None, the pipeline counter and wal\_begin\_seq
  become 0, the job is cleared, the destination socket is closed when one is open, the
  running slot becomes -1 and the stop flag is cleared. Every other field keeps its
  value, among them the outcome, the forbidden slot and the failed slot. After a
  successful migration whose slot is still in the forbidden register, and after a failed
  one whose slot is in the failed register, GetMigrationInfo reports after Clean what it
  reported before: that outcome with that slot. In general, after a terminal outcome the
  report after Clean is the report before it unless both the forbidden and the failed
  register hold no slot; then it is empty, because the report is also guarded by the
  running-slot register, which Clean resets.
\<close>

theorem C10_Clean_frame:
  "Clean m = m\<lparr>current_stage := kNone, current_pipeline_size := 0, migration_job := None,
               dst_fd := NullFD, migrating_slot := - 1, stop_migration := False,
               slot_snapshot := None, wal_begin_seq := 0,
               sys_log := sys_log m
                  @ (case slot_snapshot m of Some snap \<Rightarrow> [ReleaseSnapshot snap] | None \<Rightarrow> [])
                  @ (if dst_fd m \<noteq> NullFD then [CloseFd (dst_fd m)] else [])\<rparr> \<and>
   migration_state (Clean m) = migration_state m \<and>
   forbidden_slot (Clean m) = forbidden_slot m \<and>
   migrate_failed_slot (Clean m) = migrate_failed_slot m \<and>
   (migration_state m = MS_kSuccess \<and> 0 \<le> forbidden_slot m \<longrightarrow>
      GetMigrationInfo (Clean m) = format_info (forbidden_slot m) (dst_node m) ''success'' \<and>
      GetMigrationInfo (Clean m) = GetMigrationInfo m) \<and>
   (migration_state m = MS_kFailed \<and> 0 \<le> migrate_failed_slot m \<longrightarrow>
      GetMigrationInfo (Clean m) = format_info (migrate_failed_slot m) (dst_node m) ''fail'' \<and>
      GetMigrationInfo (Clean m) = GetMigrationInfo m) \<and>
   (migration_state m = MS_kSuccess \<or> migration_state m = MS_kFailed \<longrightarrow>
      GetMigrationInfo (Clean m) =
        (if forbidden_slot m < 0 \<and> migrate_failed_slot m < 0 then [] else GetMigrationInfo m))"
  by (auto simp add: Clean_eq GetMigrationInfo_def)

theorem C10_Clean_frame_witness:
  "GetMigrationInfo (Clean (migrator0\<lparr>migration_state := MS_kSuccess, forbidden_slot := 7,
       migrating_slot := 7, current_stage := kClean, slot_snapshot := Some 42, dst_fd := 9,
       dst_node := ''node-b''\<rparr>))
     = format_info 7 ''node-b'' ''success'' \<and>
   sys_log (Clean (migrator0\<lparr>migration_state := MS_kSuccess, forbidden_slot := 7,
       migrating_slot := 7, current_stage := kClean, slot_snapshot := Some 42, dst_fd := 9,
       dst_node := ''node-b''\<rparr>))
     = [ReleaseSnapshot 42, CloseFd 9] \<and>
   GetMigrationInfo (Clean (migrator0\<lparr>migration_state := MS_kFailed, migrate_failed_slot := 7,
       migrating_slot := 7, current_stage := kClean, dst_node := ''node-b''\<rparr>))
     = format_info 7 ''node-b'' ''fail'' \<and>
   GetMigrationInfo (Clean (migrator0\<lparr>migration_state := MS_kSuccess, migrating_slot := 7,
       current_stage := kClean, dst_node := ''node-b''\<rparr>))
     = []"
proof -
  let ?rel = "migrator0\<lparr>migration_state := MS_kSuccess, migrating_slot := 7,
       current_stage := kClean, dst_node := ''node-b''\<rparr>"
  have rel: "migration_state ?rel = MS_kSuccess" by simp
  have none: "forbidden_slot ?rel < 0 \<and> migrate_failed_slot ?rel < 0"
    by (simp add: migrator0_eq)
  from C10_Clean_frame [of ?rel] rel
  have "GetMigrationInfo (Clean ?rel) =
      (if forbidden_slot ?rel < 0 \<and> migrate_failed_slot ?rel < 0 then []
       else GetMigrationInfo ?rel)"
    by blast
  then have 4: "GetMigrationInfo (Clean ?rel) = []"
    unfolding if_P [OF none] .
  let ?ok = "migrator0\<lparr>migration_state := MS_kSuccess, forbidden_slot := 7,
       migrating_slot := 7, current_stage := kClean, slot_snapshot := Some 42, dst_fd := 9,
       dst_node := ''node-b''\<rparr>"
  let ?ko = "migrator0\<lparr>migration_state := MS_kFailed, migrate_failed_slot := 7,
       migrating_slot := 7, current_stage := kClean, dst_node := ''node-b''\<rparr>"
  have ok: "migration_state ?ok = MS_kSuccess \<and> 0 \<le> forbidden_slot ?ok" by simp
  have ko: "migration_state ?ko = MS_kFailed \<and> 0 \<le> migrate_failed_slot ?ko" by simp
  from C10_Clean_frame [of ?ok] ok
  have 1: "GetMigrationInfo (Clean ?ok) = format_info (forbidden_slot ?ok) (dst_node ?ok) ''success''"
    by blast
  from C10_Clean_frame [of ?ko] ko
  have 2: "GetMigrationInfo (Clean ?ko) = format_info (migrate_failed_slot ?ko) (dst_node ?ko) ''fail''"
    by blast
  have 3: "sys_log (Clean ?ok) = [ReleaseSnapshot 42, CloseFd 9]"
    by (simp add: Clean_eq migrator0_eq NullFD_def)
  from 1 2 3 4 show ?thesis by simp
qed

text \<open>
  C10 as stated fails in its last part. The migration of slot 7 to node-b succeeds, and
  the forbidden slot is released while the thread is on its way to \<^verbatim>\<open>Clean\<close>. Before
  \<^verbatim>\<open>Clean\<close> the report names the outcome (with the slot -1); the next step of the thread is
  \<^verbatim>\<open>Clean\<close>, and after it the report is empty: the outcome is no longer reported.
\<close>

theorem C10_info_counterexample:
  "migration_state (run plain_helpers migrator0 released_run) = MS_kSuccess \<and>
   forbidden_slot (run plain_helpers migrator0 released_run) = - 1 \<and>
   GetMigrationInfo (run plain_helpers migrator0 released_run)
     = format_info (- 1) ''node-b'' ''success'' \<and>
   run plain_helpers migrator0 (released_run @ [Thread ready_world []])
     = Clean (run plain_helpers migrator0 released_run) \<and>
   GetMigrationInfo (Clean (run plain_helpers migrator0 released_run)) = []"
proof -
  let ?R = "run plain_helpers migrator0 released_run"
  note ev = run_def step_def process_ended_def PerformSlotMigration_def Let_def migrator0_eq
    to_int16_def thread_step_def IsTerminated_def RunMigrationProcess_pass_def StartMigration_def
    world0_def make_job_def ready_world_def ack_exchange_def released_run_def
    SetImportStatusOnDstNode_def CheckSingleResponse_def CheckMultipleResponses_def
    parse_buffer_steps CRLF_def line0_def next_exchange_def dst_fd_Reset_def NullFD_def
    SendSnapshot_def empty_store_def quiet_round_def SyncWAL_def SyncWALBeforeForbiddingSlot_def
    before_loop.simps SyncWALAfterForbiddingSlot_def SetForbiddenSlot_def
    FinishSuccessfulMigration_def ReleaseForbiddenSlot_def plain_helpers_def
    SendCmdsPipelineIfNeed_def kMaxLoopTimes_def
  have regs: "current_stage ?R = kClean \<and> thread_state ?R = Running \<and>
      migration_state ?R = MS_kSuccess \<and> forbidden_slot ?R = - 1 \<and>
      migrate_failed_slot ?R = - 1 \<and> migrating_slot ?R = 7 \<and> dst_node ?R = ''node-b''"
    by (simp add: ev)
  have alive: "\<not> process_ended ?R"
    by (simp add: ev)
  have last: "run plain_helpers migrator0 (released_run @ [Thread ready_world []])
     = step plain_helpers ?R (Thread ready_world [])"
    by (simp add: run_def)
  from regs alive show ?thesis
    unfolding last
    by (simp add: GetMigrationInfo_def Clean_eq step_def thread_step_def
          RunMigrationProcess_pass_def IsTerminated_def)
qed

subsection \<open>Claims on the reply parser\<close>

text \<open>
  C7, evaluated on the code. The destination answers one awaited command with the nil
  reply \<^verbatim>\<open>$-1\r\n\<close> and sends nothing more. Whatever \<^verbatim>\<open>ParseInt<uint64_t>\<close> makes of the
  text \<^verbatim>\<open>-1\<close>, the call completes only if that is the length 0 (or the length \<open>2^64 - 2\<close>,
  for which \<^verbatim>\<open>bulk_len + 2\<close> wraps to 0): a refusal is a protocol error, and any other
  length, such as \<open>2^64 - 1\<close>, makes the parser wait for a payload until the read fails.
\<close>

theorem C7_nil_reply:
  "CheckMultipleResponses ParseInt 7 1 [''$-1'' @ CRLF] strerror =
     (case ParseInt ''-1'' of
        None \<Rightarrow> Inl errProtocol
      | Some len \<Rightarrow>
          if len = 0 \<or> len + 2 = 0 then Status_OK else Inl (errReadFailed strerror))"
proof (cases "ParseInt ''-1''")
  case None
  then show ?thesis
    by (simp add: CheckMultipleResponses_def parse_buffer_steps CRLF_def line0_def)
next
  case (Some len)
  show ?thesis
  proof (cases "len = 0")
    case True
    with Some show ?thesis
      by (simp add: CheckMultipleResponses_def parse_buffer_steps CRLF_def line0_def)
  next
    case False
    then have pos: "len > 0" by (simp add: word_greater_zero_iff)
    show ?thesis
    proof (cases "len + 2 = 0")
      case True
      with Some pos False show ?thesis
        by (simp add: CheckMultipleResponses_def parse_buffer_steps CRLF_def line0_def)
    next
      case nz: False
      then have "unat (len + 2) \<noteq> 0" by (simp add: unat_eq_0)
      with Some pos False nz show ?thesis
        by (simp add: CheckMultipleResponses_def parse_buffer_steps CRLF_def line0_def)
    qed
  qed
qed

text \<open>
  C7's evaluation at two readings of the missing parser: one that refuses a sign, and one
  that reads \<^verbatim>\<open>-1\<close> as \<open>2^64 - 1\<close>, as the C library's \<^verbatim>\<open>strtoull\<close> does.
\<close>

theorem C7_nil_reply_witness:
  "CheckMultipleResponses ParseInt_decimal 7 1 [''$-1'' @ CRLF] ''Connection timed out''
     = Inl errProtocol \<and>
   CheckMultipleResponses (\<lambda>s. Some (- 1)) 7 1 [''$-1'' @ CRLF] ''Connection timed out''
     = Inl (errReadFailed ''Connection timed out'')"
  using C7_nil_reply [of ParseInt_decimal "''Connection timed out''"]
    C7_nil_reply [of "\<lambda>s. Some (- 1)" "''Connection timed out''"]
  by (simp add: ParseInt_decimal_def is_digit_def)

text \<open>
  Further runs of the parser, with two replies awaited. A bulk reply of positive length
  is consumed with its trailing CRLF. An empty bulk reply is counted on its header alone:
  its trailing CRLF stays in the buffer and is read as the next header, which fails. A
  nil reply whose length is read as \<open>2^64 - 1\<close> swallows the first byte of the reply
  that follows.
\<close>

lemma bulk_reply_consumed:
  "CheckMultipleResponses ParseInt_decimal 7 2 [''$3'' @ CRLF @ ''abc'' @ CRLF @ '':1'' @ CRLF] strerror
     = Status_OK"
  by (simp add: CheckMultipleResponses_def parse_buffer_steps CRLF_def line0_def
        ParseInt_decimal_def is_digit_def)

lemma empty_bulk_reply_not_consumed:
  "CheckMultipleResponses ParseInt_decimal 7 2 [''$0'' @ CRLF @ CRLF @ '':1'' @ CRLF] strerror
     = Inl (errUnexpectedResponse [])"
  by (simp add: CheckMultipleResponses_def parse_buffer_steps CRLF_def line0_def
        ParseInt_decimal_def is_digit_def)

lemma nil_reply_swallows_next:
  "CheckMultipleResponses (\<lambda>s. Some (- 1)) 7 2 [''$-1'' @ CRLF @ '':1'' @ CRLF] strerror
     = Inl (errUnexpectedResponse ''1'')"
  by (simp add: CheckMultipleResponses_def parse_buffer_steps CRLF_def line0_def
        word_greater_zero_iff)

subsection \<open>Arithmetic of the rate limit\<close>

lemma int_div_le_dividend: "(0::int) \<le> a \<Longrightarrow> 0 < b \<Longrightarrow> a div b \<le> a"
  by (metis div_by_1 int_one_le_iff_zero_less zdiv_mono2 zero_less_one)


lemma c_div_nonneg: "0 \<le> a \<Longrightarrow> 0 < b \<Longrightarrow> c_div a b = a div b"
  by (cases "a = 0") (simp_all add: c_div_def)

lemma to_int32_id: "0 \<le> x \<Longrightarrow> x < 2147483648 \<Longrightarrow> to_int32 x = x"
  by (simp add: to_int32_def)

lemma per_request_time_in_range:
  assumes "0 < max_migration_speed m" "0 \<le> max_pipeline_size m" "1000000 * max_pipeline_size m < 2147483648"
  shows "per_request_time m =
           (if 1000000 * max_pipeline_size m div max_migration_speed m = 0 then 1
            else word_of_int (1000000 * max_pipeline_size m div max_migration_speed m))"
proof -
  let ?q = "1000000 * max_pipeline_size m div max_migration_speed m"
  have q0: "0 \<le> ?q" using assms by (simp add: pos_imp_zdiv_nonneg_iff)
  have "?q \<le> 1000000 * max_pipeline_size m"
    using assms by (simp add: int_div_le_dividend)
  then have q1: "?q < 2 ^ 64" using assms(3) by simp
  have "(word_of_int ?q :: 64 word) = 0 \<longleftrightarrow> ?q = 0"
  proof -
    have "\<not> (2 ^ 64 dvd ?q)" if "?q \<noteq> 0"
    proof
      assume "2 ^ 64 dvd ?q"
      moreover from that q0 have "0 < ?q" by simp
      ultimately have "(2 ^ 64 :: int) \<le> ?q" by (rule zdvd_imp_le)
      with q1 show False by simp
    qed
    then show ?thesis by (auto simp add: word_of_int_eq_0_iff)
  qed
  then show ?thesis
    using assms by (simp add: per_request_time_def Let_def to_int32_id c_div_nonneg)
qed

lemma ApplyMigrationSpeedLimit_unlimited:
  "max_migration_speed m \<le> 0 \<Longrightarrow> ApplyMigrationSpeedLimit current_time m = m"
  by (simp add: ApplyMigrationSpeedLimit_def)

subsection \<open>The WAL loop\<close>

text \<open>
  The gap test of the loop is on \<^verbatim>\<open>uint64_t\<close>. With the latest sequence not behind
  \<^verbatim>\<open>wal_begin_seq_\<close> and a limit in the range of a non-negative \<^verbatim>\<open>int\<close> it is the
  test on the integers.
\<close>

lemma gap_test_plain:
  fixes L wb :: "64 word"
  assumes "wb \<le> L" "0 \<le> limit" "limit < 2 ^ 31"
  shows "(L - wb \<le> word_of_int limit) = (uint L - uint wb \<le> limit)"
proof -
  have a: "uint (L - wb) = uint L - uint wb"
    using assms(1) by (simp add: uint_minus_simple_alt)
  have "limit < 2 ^ 64" using assms(3) by simp
  then have b: "uint (word_of_int limit :: 64 word) = limit"
    using assms(2) by (simp add: uint_word_of_int take_bit_int_eq_self)
  show ?thesis by (simp add: word_le_def a b)
qed

lemma before_loop_count:
  "before_loop h wal count m net = (s, n, m', net') \<Longrightarrow> count \<le> kMaxLoopTimes
     \<Longrightarrow> count \<le> n \<and> n \<le> kMaxLoopTimes"
proof (induction h wal count m net rule: before_loop.induct)
  case (1 h wal count m net)
  show ?case
    using "1.prems" "1.IH"
    by (subst (asm) before_loop.simps)
       (fastforce simp add: Let_def split: if_splits prod.splits sum.splits)
qed

lemma before_loop_cong:
  "(\<And>i. i < kMaxLoopTimes \<Longrightarrow> wal i = wal' i) \<Longrightarrow> before_loop h wal count m net = before_loop h wal' count m net"
proof (induction h wal count m net rule: before_loop.induct)
  case (1 h wal count m net)
  show ?case
    apply (subst before_loop.simps)
    apply (subst before_loop.simps [of h wal'])
    using 1
    by (fastforce simp add: Let_def split: if_splits prod.splits sum.splits)
qed

subsection \<open>The wire under the encoder\<close>

lemma sent_bytes_append [simp]: "sent_bytes (a @ b) = sent_bytes a @ sent_bytes b"
  by (induction a rule: sent_bytes.induct) simp_all

lemma wire_append: "wire (c @ x) m = wire c m @ x"
  by (simp add: wire_def)

lemma wire_incr_pipeline [simp]: "wire c (incr_pipeline m) = wire c m"
  by (simp add: wire_def incr_pipeline_def)

lemma wire_flush:
  "SendCmdsPipelineIfNeed P c need m net = (Inr u, (c', m', net')) \<Longrightarrow> wire c' m' = wire c m"
  by (auto simp add: SendCmdsPipelineIfNeed_def Let_def wire_def ApplyMigrationSpeedLimit_def
        split: if_splits sum.splits)

lemma groups_of_Nil [simp]: "groups_of n [] = []"
  by (simp add: groups_of.simps)

lemma groups_of_short: "xs \<noteq> [] \<Longrightarrow> length xs \<le> n \<Longrightarrow> groups_of n xs = [xs]"
  by (subst groups_of.simps) (cases xs; auto)

lemma groups_of_full: "length p = n \<Longrightarrow> 0 < n \<Longrightarrow> groups_of n (p @ xs) = p # groups_of n xs"
  by (subst groups_of.simps) auto

lemma complex_item_batched:
  "md_type md \<in> batched_types \<Longrightarrow>
   complex_item h md ikey ivalue user_cmd snk = (Inr (user_cmd @ item_args h md (ikey, ivalue)), snk)"
  by (auto simp add: batched_types_def complex_item_def item_args_def)

lemma complex_loop_wire:
  assumes ty: "md_type md \<in> batched_types" and base: "length base = 2"
  shows "complex_loop h md pre es (base @ concat pend) (int (length pend)) (c, m, net)
            = Inr (u', i', (c', m', net')) \<Longrightarrow> length pend < 16 \<Longrightarrow>
     \<exists>pend'. u' = base @ concat pend' \<and> i' = int (length pend') \<and> length pend' < 16 \<and>
        wire c' m' @ concat (map (\<lambda>g. MultiBulkString (base @ concat g)) (groups_of 16 pend'))
          = wire c m @ concat (map (\<lambda>g. MultiBulkString (base @ concat g))
              (groups_of 16 (pend @ map (item_args h md)
                 (takeWhile (\<lambda>e. starts_with (fst e) pre) es))))"
proof (induction es arbitrary: pend c m net)
  case Nil
  then show ?case by auto
next
  case (Cons e es)
  obtain ikey ivalue where e: "e = (ikey, ivalue)" by (cases e)
  from ty have nb: "md_type md \<noteq> kRedisBitmap" by (auto simp add: batched_types_def)
  note run = Cons.prems(1) [unfolded e]
  show ?case
  proof (cases "stop_migration m")
    case True
    with run show ?thesis by simp
  next
    case ns: False
    show ?thesis
    proof (cases "starts_with ikey pre")
      case False
      with run ns e Cons.prems(2) show ?thesis by auto
    next
      case sw: True
      let ?a = "item_args h md (ikey, ivalue)"
      let ?pend1 = "pend @ [?a]"
      have u1: "(base @ concat pend) @ ?a = base @ concat ?pend1" by simp
      show ?thesis
      proof (cases "length pend = 15")
        case full: True
        let ?c1 = "c @ MultiBulkString (base @ concat ?pend1)"
        obtain s snk2 where fl: "SendCmdsPipelineIfNeed (ParseInt_uint64 h) ?c1 False (incr_pipeline m) net = (s, snk2)"
          by (cases "SendCmdsPipelineIfNeed (ParseInt_uint64 h) ?c1 False (incr_pipeline m) net") auto
        obtain c2 m2 net2 where snk2: "snk2 = (c2, m2, net2)" by (cases snk2) auto
        from run ns sw nb full fl have ok: "\<exists>u. s = Inr u"
          by (cases s) (simp_all add: complex_item_batched [OF ty] kMaxItemsInCommand_def)
        then obtain u where s: "s = Inr u" ..
        from run ns sw nb full fl s snk2 base
        have rest: "complex_loop h md pre es (base @ concat []) (int (length ([] :: string list list))) (c2, m2, net2)
                      = Inr (u', i', (c', m', net'))"
          by (simp add: complex_item_batched [OF ty] kMaxItemsInCommand_def)
        from Cons.IH [OF rest] obtain pend' where
          p: "u' = base @ concat pend'" "i' = int (length pend')" "length pend' < 16"
             "wire c' m' @ concat (map (\<lambda>g. MultiBulkString (base @ concat g)) (groups_of 16 pend'))
               = wire c2 m2 @ concat (map (\<lambda>g. MultiBulkString (base @ concat g))
                   (groups_of 16 ([] @ map (item_args h md) (takeWhile (\<lambda>e. starts_with (fst e) pre) es))))"
          by auto
        have w2: "wire c2 m2 = wire c m @ MultiBulkString (base @ concat ?pend1)"
          using wire_flush [OF fl [unfolded s snk2]] by (simp add: wire_append)
        have g: "groups_of 16 (?pend1 @ map (item_args h md) (takeWhile (\<lambda>e. starts_with (fst e) pre) es))
                  = ?pend1 # groups_of 16 (map (item_args h md) (takeWhile (\<lambda>e. starts_with (fst e) pre) es))"
          using full by (intro groups_of_full) simp_all
        show ?thesis
          using p w2 g sw e by (intro exI [of _ pend']) simp
      next
        case notfull: False
        with Cons.prems(2) have lt: "length ?pend1 < 16" by simp
        from run ns sw nb notfull Cons.prems(2)
        have rest: "complex_loop h md pre es (base @ concat ?pend1) (int (length ?pend1)) (c, m, net)
                      = Inr (u', i', (c', m', net'))"
          by (simp add: complex_item_batched [OF ty] kMaxItemsInCommand_def add.commute)
        from Cons.IH [OF rest lt] show ?thesis
          using sw e by simp
      qed
    qed
  qed
qed


lemma length_groups_of: "0 < n \<Longrightarrow> length (groups_of n xs) = (length xs + n - 1) div n"
proof (induction n xs rule: groups_of.induct)
  case (1 n xs)
  show ?case
  proof (cases "xs = []")
    case True
    with 1 show ?thesis by simp
  next
    case False
    from "1.prems" have n0: "n \<noteq> 0" by simp
    from False have e: "length xs + n - 1 = (length xs - 1) + n" by (cases xs) simp_all
    have split: "(length xs + n - 1) div n = Suc ((length xs - 1) div n)"
      by (simp only: e div_add_self2 [OF n0] Suc_eq_plus1)
    show ?thesis
    proof (cases "length xs \<le> n")
      case True
      with False have "length xs - 1 < n" by (cases xs) simp_all
      then have "(length xs - 1) div n = 0" by simp
      moreover from False True have "groups_of n xs = [xs]" by (rule groups_of_short)
      ultimately show ?thesis using split by simp
    next
      case gt: False
      from False "1.prems" "1.IH"
      have "length (groups_of n (drop n xs)) = (length (drop n xs) + n - 1) div n" by simp
      also from gt have "length (drop n xs) + n - 1 = length xs - 1" by simp
      finally have IH: "length (groups_of n (drop n xs)) = (length xs - 1) div n" .
      have "groups_of n xs = take n xs # groups_of n (drop n xs)"
        using False n0 by (subst groups_of.simps) simp
      with IH split show ?thesis by simp
    qed
  qed
qed

lemma complex_loop_Inl:
  "complex_loop h md pre es user_cmd item_count snk = Inl (s, snk') \<Longrightarrow> \<exists>e. s = Inl e"
  by (induction h md pre es user_cmd item_count snk rule: complex_loop.induct)
     (auto split: if_splits prod.splits sum.splits)

lemma MigrateComplexKey_after_loop:
  assumes "complex_loop h md (SubKeyPrefix h key (md_version md))
             (db_seek db (SubKeyPrefix h key (md_version md))) [type_to_cmd (md_type md), key] 0 snk
           = Inr (u1, i1, (c1, m1, net1))"
  shows "MigrateComplexKey h db key md snk =
      (case SendCmdsPipelineIfNeed (ParseInt_uint64 h)
              ((c1 @ (if i1 mod kMaxItemsInCommand \<noteq> 0 then MultiBulkString u1 else []))
                @ (if md_expire md > 0
                   then MultiBulkString [''PEXPIREAT'', key, dec_nat (unat (md_expire md))] else []))
              False
              (if md_expire md > 0
               then incr_pipeline (if i1 mod kMaxItemsInCommand \<noteq> 0 then incr_pipeline m1 else m1)
               else (if i1 mod kMaxItemsInCommand \<noteq> 0 then incr_pipeline m1 else m1))
              net1 of
         (Inl e, snk') \<Rightarrow> (Inl (Prefixed errFailedToSendCommands e), snk')
       | (Inr _, snk') \<Rightarrow> (Status_OK, snk'))"
  unfolding MigrateComplexKey_def Let_def assms by simp

lemma MigrateComplexKey_loop_failed:
  assumes "complex_loop h md (SubKeyPrefix h key (md_version md))
             (db_seek db (SubKeyPrefix h key (md_version md))) [type_to_cmd (md_type md), key] 0 snk
           = Inl r"
  shows "MigrateComplexKey h db key md snk = r"
  unfolding MigrateComplexKey_def Let_def assms by simp

lemma concat_groups_of: "0 < n \<Longrightarrow> concat (groups_of n xs) = xs"
proof (induction n xs rule: groups_of.induct)
  case (1 n xs)
  then show ?case by (subst groups_of.simps) auto
qed

lemma groups_of_lengths:
  "0 < n \<Longrightarrow> g \<in> set (groups_of n xs) \<Longrightarrow> 0 < length g \<and> length g \<le> n"
proof (induction n xs rule: groups_of.induct)
  case (1 n xs)
  from "1.prems" "1.IH" show ?case
    by (subst (asm) groups_of.simps) (auto split: if_splits)
qed

lemma groups_of_nth:
  "0 < n \<Longrightarrow> i < length (groups_of n xs) \<Longrightarrow> groups_of n xs ! i = take n (drop (i * n) xs)"
proof (induction n xs arbitrary: i rule: groups_of.induct)
  case (1 n xs)
  show ?case
  proof (cases "xs = []")
    case True
    with "1.prems" show ?thesis by simp
  next
    case False
    with "1.prems" have unf: "groups_of n xs = take n xs # groups_of n (drop n xs)"
      by (subst groups_of.simps) simp
    show ?thesis
    proof (cases i)
      case 0
      with unf show ?thesis by simp
    next
      case (Suc j)
      with "1.prems" unf have "j < length (groups_of n (drop n xs))" by simp
      with "1.IH" False "1.prems"(1)
      have "groups_of n (drop n xs) ! j = take n (drop (j * n) (drop n xs))" by simp
      with Suc unf show ?thesis by (simp add: add.commute)
    qed
  qed
qed


subsection \<open>The reply parser counts the replies\<close>

text \<open>
  Bytes that arrive later change neither a complete reply nor a refusal; a pass of the
  parser that stops for more bytes goes on, with them, as a pass from the start would;
  a pass from the start of a reply returns OK when the bytes hold the replies still
  awaited, fails when one of them is refused, and stops for more bytes otherwise. So the
  call returns OK exactly when the socket delivers \<open>total\<close> replies.
\<close>

lemma evbuffer_readln_append:
  "evbuffer_readln buf = Some (line, rest) \<Longrightarrow> evbuffer_readln (buf @ tail) = Some (line, rest @ tail)"
  by (induction buf arbitrary: line rule: evbuffer_readln.induct)
     (auto split: if_splits option.splits)

lemma one_reply_append:
  "one_reply P buf = Reply rest \<Longrightarrow> one_reply P (buf @ tail) = Reply (rest @ tail)"
  "one_reply P buf = Refused e \<Longrightarrow> one_reply P (buf @ tail) = Refused e"
  by (auto simp add: one_reply_def evbuffer_readln_append split: option.splits if_splits)

lemma replies_append:
  "(replies P n buf = Reply rest \<longrightarrow> replies P n (buf @ tail) = Reply (rest @ tail)) \<and>
   (replies P n buf = Refused e \<longrightarrow> replies P n (buf @ tail) = Refused e)"
  by (induction n arbitrary: buf)
     (auto simp add: one_reply_append split: reply_out.splits)


lemma parse_buffer_resume:
  "parse_buffer P total_n pst bulk_len cnt buf = ReadAgain pst' bulk_len' cnt' buf' \<Longrightarrow>
   parse_buffer P total_n pst bulk_len cnt (buf @ tail)
     = parse_buffer P total_n pst' bulk_len' cnt' (buf' @ tail)"
proof (induction P total_n pst bulk_len cnt buf rule: parse_buffer.induct)
  case (1 P total_n pst bulk_len cnt buf)
  show ?case
  proof (cases pst)
    case ArrayLen
    show ?thesis
    proof (cases "evbuffer_readln buf")
      case None
      with ArrayLen 1(5) show ?thesis by (simp add: parse_buffer_ArrayLen)
    next
      case (Some lr)
      obtain line rest where lr: "lr = (line, rest)" by (cases lr)
      note app = evbuffer_readln_append [OF Some [unfolded lr], of tail]
      from ArrayLen Some lr 1(5) app 1(1) [OF ArrayLen Some [unfolded lr] refl] 1(2) [OF ArrayLen Some [unfolded lr] refl]
      show ?thesis
        by (auto simp add: parse_buffer_ArrayLen split: if_splits option.splits)
    qed
  next
    case BulkData
    with 1(3) 1(5) show ?thesis
      by (auto simp add: parse_buffer_BulkData split: if_splits)
  next
    case OneRspEnd
    with 1(4) 1(5) show ?thesis
      by (auto simp add: parse_buffer_OneRspEnd split: if_splits)
  qed
qed

lemma parse_replies:
  "cnt < total_n \<Longrightarrow> nat (total_n - cnt) = k \<Longrightarrow>
   outcome (parse_buffer P total_n ArrayLen bulk_len cnt buf)
     = replies_status (replies P k buf)"
proof (induction k arbitrary: cnt bulk_len buf)
  case 0
  then show ?case by simp
next
  case (Suc k)
  have step: "\<And>bl rest. outcome (parse_buffer P total_n OneRspEnd bl cnt rest)
                 = replies_status (replies P k rest)"
  proof -
    fix bl rest
    show "outcome (parse_buffer P total_n OneRspEnd bl cnt rest) = replies_status (replies P k rest)"
    proof (cases "cnt + 1 \<ge> total_n")
      case True
      with Suc.prems have "k = 0" by simp
      with True show ?thesis by (simp add: parse_buffer_OneRspEnd)
    next
      case False
      with Suc.prems have "cnt + 1 < total_n" "nat (total_n - (cnt + 1)) = k" by simp_all
      from Suc.IH [OF this] False show ?thesis by (simp add: parse_buffer_OneRspEnd)
    qed
  qed
  show ?case
    by (auto simp add: parse_buffer_ArrayLen parse_buffer_BulkData one_reply_def step
          split: option.splits)
qed

lemma bex_shift: "(\<exists>k\<in>{1..Suc n}. Q k) \<longleftrightarrow> (Q 1 \<or> (\<exists>k\<in>{1..n}. Q (Suc k)))"
proof
  assume "\<exists>k\<in>{1..Suc n}. Q k"
  then obtain k where k: "1 \<le> k" "k \<le> Suc n" "Q k" by auto
  show "Q 1 \<or> (\<exists>k\<in>{1..n}. Q (Suc k))"
  proof (cases "k = 1")
    case True
    with k show ?thesis by simp
  next
    case False
    with k obtain j where "k = Suc j" "1 \<le> j" "j \<le> n" by (cases k) auto
    with k show ?thesis by auto
  qed
next
  assume "Q 1 \<or> (\<exists>k\<in>{1..n}. Q (Suc k))"
  then show "\<exists>k\<in>{1..Suc n}. Q k"
  proof
    assume "Q 1"
    then show ?thesis by (intro bexI [of _ 1]) simp_all
  next
    assume "\<exists>k\<in>{1..n}. Q (Suc k)"
    then obtain k where "1 \<le> k" "k \<le> n" "Q (Suc k)" by auto
    then show ?thesis by (intro bexI [of _ "Suc k"]) simp_all
  qed
qed

lemma read_loop_awaits:
  "parse_buffer P total_n ArrayLen 0 0 got = ReadAgain pst bl cnt buf \<Longrightarrow> 0 < total_n \<Longrightarrow>
   IsOK (read_loop P total_n pst bl cnt buf chunks se) \<longleftrightarrow>
     (\<exists>k\<in>{1..length chunks}. [] \<notin> set (take k chunks) \<and>
        is_Reply (replies P (nat total_n) (got @ concat (take k chunks))))"
proof (induction chunks arbitrary: got pst bl cnt buf)
  case Nil
  then show ?case by (simp add: IsOK_def)
next
  case (Cons c cs)
  let ?Q = "\<lambda>k. [] \<notin> set (take k (c # cs)) \<and>
        is_Reply (replies P (nat total_n) (got @ concat (take k (c # cs))))"
  have shift: "(\<exists>k\<in>{1..length (c # cs)}. ?Q k) \<longleftrightarrow> (?Q 1 \<or> (\<exists>k\<in>{1..length cs}. ?Q (Suc k)))"
    using bex_shift [of "length cs" ?Q] by simp
  show ?case
  proof (cases "c = []")
    case True
    then show ?thesis unfolding shift by (simp add: IsOK_def)
  next
    case False
    have eq: "parse_buffer P total_n pst bl cnt (buf @ c) = parse_buffer P total_n ArrayLen 0 0 (got @ c)"
      using parse_buffer_resume [OF Cons.prems(1), of c] by simp
    have oc: "outcome (parse_buffer P total_n ArrayLen 0 0 (got @ c))
                = replies_status (replies P (nat total_n) (got @ c))"
      using parse_replies [of 0 total_n "nat total_n" P 0 "got @ c"] Cons.prems(2) by simp
    show ?thesis
    proof (cases "replies P (nat total_n) (got @ c)")
      case (Reply rest)
      with oc have "parse_buffer P total_n ArrayLen 0 0 (got @ c) = Return Status_OK"
        by (cases "parse_buffer P total_n ArrayLen 0 0 (got @ c)") simp_all
      with False eq Reply show ?thesis unfolding shift
        by (simp add: IsOK_def)
    next
      case (Refused e)
      with oc have ret: "parse_buffer P total_n ArrayLen 0 0 (got @ c) = Return (Inl e)"
        by (cases "parse_buffer P total_n ArrayLen 0 0 (got @ c)") simp_all
      have "\<And>k. replies P (nat total_n) ((got @ c) @ concat (take k cs)) = Refused e"
        using replies_append [of P "nat total_n" "got @ c"] Refused by blast
      with False eq ret Refused show ?thesis unfolding shift
        by (simp add: IsOK_def)
    next
      case Partial
      with oc obtain pst' bl' cnt' buf' where
        again: "parse_buffer P total_n ArrayLen 0 0 (got @ c) = ReadAgain pst' bl' cnt' buf'"
        by (cases "parse_buffer P total_n ArrayLen 0 0 (got @ c)") simp_all
      from Cons.IH [OF again Cons.prems(2)] False eq again Partial show ?thesis
        unfolding shift by simp
    qed
  qed
qed

lemma CheckMultipleResponses_awaits:
  "IsOK (CheckMultipleResponses P fd n chunks se) \<longleftrightarrow>
     0 \<le> fd \<and> 0 < n \<and> delivers P (nat n) chunks"
proof (cases "fd < 0 \<or> n \<le> 0")
  case True
  then show ?thesis by (auto simp add: CheckMultipleResponses_def IsOK_def)
next
  case False
  have start: "parse_buffer P n ArrayLen 0 0 [] = ReadAgain ArrayLen 0 0 []"
    by (simp add: parse_buffer_ArrayLen)
  from False have "0 < n" by simp
  from read_loop_awaits [OF start this, of chunks se] False show ?thesis
    by (simp add: CheckMultipleResponses_def delivers_def)
qed

subsection \<open>Claims on the pipelined sink\<close>

text \<open>
  C4. A call of the pipeline flush. With the stop flag set at entry it fails with the
  cancellation error and does nothing else: the buffer, the migrator (its log of calls
  included) and the network are as before. Otherwise, when it is not forced and the
  counter is below the pipeline width, or when the counter is zero, it returns OK and
  likewise does nothing. Otherwise it applies the rate limit, sends the whole buffer to
  the destination socket and, if the send succeeds, reads replies for exactly the
  counter's number of commands; it returns OK exactly when both succeed, and then the
  buffer is empty, the counter is 0 and the send time is recorded; on a failure the
  buffer and the counter are kept. Reading for the counter's number of replies succeeds
  exactly when the socket delivers that many: the call returns OK if and only if the
  send succeeds, the descriptor and the counter are valid, and after some read, none up
  to it empty-handed, the bytes received begin with \<open>counter\<close> complete replies. With
  fewer replies on the stream, however many reads deliver them, it fails.
\<close>

theorem C4_flush:
  "(stop_migration m \<longrightarrow>
      SendCmdsPipelineIfNeed ParseInt commands need m net = (Inl errMigrationTaskCanceled, commands, m, net)) \<and>
   (\<not> stop_migration m \<and>
      ((\<not> need \<and> current_pipeline_size m < max_pipeline_size m) \<or> current_pipeline_size m = 0) \<longrightarrow>
      SendCmdsPipelineIfNeed ParseInt commands need m net = (Status_OK, commands, m, net)) \<and>
   (\<not> stop_migration m \<and>
      \<not> ((\<not> need \<and> current_pipeline_size m < max_pipeline_size m) \<or> current_pipeline_size m = 0) \<longrightarrow>
      (case SendCmdsPipelineIfNeed ParseInt commands need m net of
         (s, commands', m', net') \<Rightarrow>
           net' = tl net \<and>
           sys_log m' = sys_log (ApplyMigrationSpeedLimit (x_now (next_exchange net)) m)
               @ SockSend (dst_fd m) commands
               # (if IsOK (x_send (next_exchange net))
                  then [ReadResponses (dst_fd m) (current_pipeline_size m)] else []) \<and>
           IsOK s = (IsOK (x_send (next_exchange net)) \<and>
              IsOK (CheckMultipleResponses ParseInt (dst_fd m) (current_pipeline_size m)
                      (x_replies (next_exchange net)) (x_strerror (next_exchange net)))) \<and>
           IsOK s = (IsOK (x_send (next_exchange net)) \<and>
              0 \<le> dst_fd m \<and> 0 < current_pipeline_size m \<and>
              delivers ParseInt (nat (current_pipeline_size m)) (x_replies (next_exchange net))) \<and>
           (if IsOK s then commands' = [] \<and> current_pipeline_size m' = 0
                          \<and> last_send_time m' = x_sent_at (next_exchange net)
            else commands' = commands \<and> current_pipeline_size m' = current_pipeline_size m)))"
proof -
  let ?check = "CheckMultipleResponses ParseInt (dst_fd m) (current_pipeline_size m)
                  (x_replies (next_exchange net)) (x_strerror (next_exchange net))"
  have awaits: "(\<exists>u. ?check = Inr u) \<longleftrightarrow>
      0 \<le> dst_fd m \<and> 0 < current_pipeline_size m \<and>
      delivers ParseInt (nat (current_pipeline_size m)) (x_replies (next_exchange net))"
    using CheckMultipleResponses_awaits
            [of ParseInt "dst_fd m" "current_pipeline_size m" "x_replies (next_exchange net)"
                "x_strerror (next_exchange net)"]
    by (cases ?check) (simp_all add: IsOK_def)
  have sleep: "dst_fd (ApplyMigrationSpeedLimit t m) = dst_fd m \<and>
      current_pipeline_size (ApplyMigrationSpeedLimit t m) = current_pipeline_size m" for t
    by (simp add: ApplyMigrationSpeedLimit_def Let_def)
  show ?thesis
    using awaits
    by (auto simp add: SendCmdsPipelineIfNeed_def Let_def IsOK_def sleep split: sum.splits)
qed

theorem C4_flush_witness:
  "SendCmdsPipelineIfNeed ParseInt_decimal ''xy'' True (flushing_migrator\<lparr>stop_migration := True\<rparr>) [ok_exchange]
     = (Inl errMigrationTaskCanceled, ''xy'', flushing_migrator\<lparr>stop_migration := True\<rparr>, [ok_exchange]) \<and>
   SendCmdsPipelineIfNeed ParseInt_decimal ''xy'' False flushing_migrator [ok_exchange]
     = (Status_OK, ''xy'', flushing_migrator, [ok_exchange]) \<and>
   SendCmdsPipelineIfNeed ParseInt_decimal ''xy'' True flushing_migrator [ok_exchange]
     = (Status_OK, [], flushing_migrator\<lparr>current_pipeline_size := 0, last_send_time := 60,
          sys_log := [SockSend 9 ''xy'', ReadResponses 9 2]\<rparr>, []) \<and>
   delivers ParseInt_decimal 2 (x_replies ok_exchange) \<and>
   \<not> delivers ParseInt_decimal 2 (x_replies ack_exchange) \<and>
   IsOK (fst (SendCmdsPipelineIfNeed ParseInt_decimal ''xy'' True flushing_migrator [ok_exchange])) \<and>
   \<not> IsOK (fst (SendCmdsPipelineIfNeed ParseInt_decimal ''xy'' True flushing_migrator [ack_exchange])) \<and>
   fst (snd (SendCmdsPipelineIfNeed ParseInt_decimal ''xy'' True flushing_migrator [ack_exchange])) = ''xy'' \<and>
   current_pipeline_size (fst (snd (snd
      (SendCmdsPipelineIfNeed ParseInt_decimal ''xy'' True flushing_migrator [ack_exchange])))) = 2"
proof -
  have stop: "stop_migration (flushing_migrator\<lparr>stop_migration := True\<rparr>)" by simp
  have idle: "\<not> stop_migration flushing_migrator \<and>
      ((\<not> False \<and> current_pipeline_size flushing_migrator < max_pipeline_size flushing_migrator)
        \<or> current_pipeline_size flushing_migrator = 0)"
    by (simp add: flushing_migrator_def migrator0_eq)
  have 1: "SendCmdsPipelineIfNeed ParseInt_decimal ''xy'' True (flushing_migrator\<lparr>stop_migration := True\<rparr>) [ok_exchange]
     = (Inl errMigrationTaskCanceled, ''xy'', flushing_migrator\<lparr>stop_migration := True\<rparr>, [ok_exchange])"
    using C4_flush [where m = "flushing_migrator\<lparr>stop_migration := True\<rparr>" and ParseInt = ParseInt_decimal
            and commands = "''xy''" and need = True and net = "[ok_exchange]"] stop
    by blast
  have 2: "SendCmdsPipelineIfNeed ParseInt_decimal ''xy'' False flushing_migrator [ok_exchange]
     = (Status_OK, ''xy'', flushing_migrator, [ok_exchange])"
    using C4_flush [where m = flushing_migrator and ParseInt = ParseInt_decimal
            and commands = "''xy''" and need = False and net = "[ok_exchange]"] idle
    by blast
  have 3: "SendCmdsPipelineIfNeed ParseInt_decimal ''xy'' True flushing_migrator [ok_exchange]
     = (Status_OK, [], flushing_migrator\<lparr>current_pipeline_size := 0, last_send_time := 60,
          sys_log := [SockSend 9 ''xy'', ReadResponses 9 2]\<rparr>, [])"
    by (simp add: SendCmdsPipelineIfNeed_def flushing_migrator_def migrator0_eq ok_exchange_def
        next_exchange_def ApplyMigrationSpeedLimit_def Let_def CheckMultipleResponses_def
        parse_buffer_steps CRLF_def line0_def)
  have busy: "\<not> stop_migration flushing_migrator \<and>
      \<not> ((\<not> True \<and> current_pipeline_size flushing_migrator < max_pipeline_size flushing_migrator)
        \<or> current_pipeline_size flushing_migrator = 0)"
    by (simp add: flushing_migrator_def migrator0_eq)
  have regs: "dst_fd flushing_migrator = 9 \<and> current_pipeline_size flushing_migrator = 2"
    by (simp add: flushing_migrator_def)
  have d1: "delivers ParseInt_decimal 2 (x_replies ok_exchange)"
    unfolding delivers_def
    by (rule bexI [of _ 2])
       (simp_all add: ok_exchange_def numeral_2_eq_2 one_reply_def CRLF_def line0_def)
  have d2: "\<not> delivers ParseInt_decimal 2 (x_replies ack_exchange)"
    by (simp add: delivers_def ack_exchange_def numeral_2_eq_2 one_reply_def CRLF_def line0_def)
  have s1: "IsOK (x_send (next_exchange [ok_exchange]))" "next_exchange [ok_exchange] = ok_exchange"
    "next_exchange [ack_exchange] = ack_exchange"
    by (simp_all add: next_exchange_def ok_exchange_def IsOK_def)
  obtain s c m' n' where r1: "SendCmdsPipelineIfNeed ParseInt_decimal ''xy'' True flushing_migrator [ok_exchange] = (s, c, m', n')"
    by (cases "SendCmdsPipelineIfNeed ParseInt_decimal ''xy'' True flushing_migrator [ok_exchange]") auto
  from C4_flush [where m = flushing_migrator and ParseInt = ParseInt_decimal
            and commands = "''xy''" and need = True and net = "[ok_exchange]"] busy
  have "IsOK s = (IsOK (x_send (next_exchange [ok_exchange])) \<and>
              0 \<le> dst_fd flushing_migrator \<and> 0 < current_pipeline_size flushing_migrator \<and>
              delivers ParseInt_decimal (nat (current_pipeline_size flushing_migrator)) (x_replies (next_exchange [ok_exchange])))"
    unfolding r1 by blast
  with s1 regs d1 have 4: "IsOK s" by simp
  obtain t d m2 n2 where r2: "SendCmdsPipelineIfNeed ParseInt_decimal ''xy'' True flushing_migrator [ack_exchange] = (t, d, m2, n2)"
    by (cases "SendCmdsPipelineIfNeed ParseInt_decimal ''xy'' True flushing_migrator [ack_exchange]") auto
  from C4_flush [where m = flushing_migrator and ParseInt = ParseInt_decimal
            and commands = "''xy''" and need = True and net = "[ack_exchange]"] busy
  have f: "IsOK t = (IsOK (x_send (next_exchange [ack_exchange])) \<and>
              0 \<le> dst_fd flushing_migrator \<and> 0 < current_pipeline_size flushing_migrator \<and>
              delivers ParseInt_decimal (nat (current_pipeline_size flushing_migrator)) (x_replies (next_exchange [ack_exchange])))
      \<and> (if IsOK t then d = [] \<and> current_pipeline_size m2 = 0
                          \<and> last_send_time m2 = x_sent_at (next_exchange [ack_exchange])
            else d = ''xy'' \<and> current_pipeline_size m2 = current_pipeline_size flushing_migrator)"
    unfolding r2 by blast
  with s1 regs d2 have 5: "\<not> IsOK t" by simp
  with f regs have 6: "d = ''xy'' \<and> current_pipeline_size m2 = 2" by simp
  from 1 2 3 d1 d2 4 5 6 show ?thesis unfolding r1 r2 by simp
qed

text \<open>
  C6, evaluated on the code. With a pipeline width of 3000 and a speed of 4096, the
  spacing the claim states is \<open>3000 * 1000000 div 4096 = 732421\<close> microseconds. The code
  multiplies on 32-bit \<^verbatim>\<open>int\<close>: the product wraps to a negative number, the spacing
  becomes \<open>2^64 - 316154\<close>, its sum with the last send time wraps to a time in the
  past, and a flush 100 microseconds after the last one does not sleep at all.
\<close>

theorem C6_speed_limit_overflow:
  "per_request_time wide_migrator = - 316154 \<and>
   ApplyMigrationSpeedLimit 1700000000000100 wide_migrator = wide_migrator \<and>
   (1000000 * max_pipeline_size wide_migrator) div max_migration_speed wide_migrator = 732421"
proof -
  have a: "per_request_time wide_migrator = - 316154"
    by (simp add: per_request_time_def wide_migrator_def migrator0_eq to_int32_def c_div_def Let_def)
  have b: "ApplyMigrationSpeedLimit 1700000000000100 wide_migrator = wide_migrator"
    by (simp add: ApplyMigrationSpeedLimit_def a) (simp add: wide_migrator_def migrator0_eq)
  have c: "(1000000 * max_pipeline_size wide_migrator) div max_migration_speed wide_migrator = 732421"
    by (simp add: wide_migrator_def migrator0_eq)
  from a b c show ?thesis by simp
qed

subsection \<open>Claims on the key encoder\<close>

text \<open>
  C9. In MigrateOneKey the emptiness test comes first: a key that is neither a String
  nor a Stream, has size 0 and is expired is classified as empty, not as expired; a key
  that is not empty in this sense and is expired is classified as expired. Whenever the
  result is either of the two classifications, the command buffer, the migrator and the
  network are as before: nothing was appended or sent.
\<close>

theorem C9_empty_before_expired:
  "(md_type (Metadata_Decode h enc) \<noteq> kRedisString \<and> md_type (Metadata_Decode h enc) \<noteq> kRedisStream
      \<and> md_size (Metadata_Decode h enc) = 0 \<and> Metadata_Expired h (Metadata_Decode h enc) \<longrightarrow>
    MigrateOneKey h db key enc snk = (Inr kUnderlyingStructEmpty, snk)) \<and>
   (\<not> (md_type (Metadata_Decode h enc) \<noteq> kRedisString \<and> md_type (Metadata_Decode h enc) \<noteq> kRedisStream
      \<and> md_size (Metadata_Decode h enc) = 0) \<and> Metadata_Expired h (Metadata_Decode h enc) \<longrightarrow>
    MigrateOneKey h db key enc snk = (Inr kExpired, snk)) \<and>
   (MigrateOneKey h db key enc snk = (Inr kUnderlyingStructEmpty, snk') \<longrightarrow> snk' = snk) \<and>
   (MigrateOneKey h db key enc snk = (Inr kExpired, snk') \<longrightarrow> snk' = snk)"
  by (cases "md_type (Metadata_Decode h enc)")
     (auto simp add: MigrateOneKey_def Let_def split: if_splits prod.splits sum.splits)

theorem C9_empty_before_expired_witness:
  "Metadata_Expired (expired_hash_helpers 0) (Metadata_Decode (expired_hash_helpers 0) ''meta'') \<and>
   MigrateOneKey (expired_hash_helpers 0) empty_store ''k'' ''meta'' (''buf'', migrator0, [])
     = (Inr kUnderlyingStructEmpty, (''buf'', migrator0, [])) \<and>
   MigrateOneKey (expired_hash_helpers 3) empty_store ''k'' ''meta'' (''buf'', migrator0, [])
     = (Inr kExpired, (''buf'', migrator0, []))"
proof -
  have e0: "md_type (Metadata_Decode (expired_hash_helpers 0) ''meta'') \<noteq> kRedisString \<and>
            md_type (Metadata_Decode (expired_hash_helpers 0) ''meta'') \<noteq> kRedisStream \<and>
            md_size (Metadata_Decode (expired_hash_helpers 0) ''meta'') = 0 \<and>
            Metadata_Expired (expired_hash_helpers 0) (Metadata_Decode (expired_hash_helpers 0) ''meta'')"
    by (simp add: expired_hash_helpers_def Expired_at_def)
  have e3: "\<not> (md_type (Metadata_Decode (expired_hash_helpers 3) ''meta'') \<noteq> kRedisString \<and>
            md_type (Metadata_Decode (expired_hash_helpers 3) ''meta'') \<noteq> kRedisStream \<and>
            md_size (Metadata_Decode (expired_hash_helpers 3) ''meta'') = 0) \<and>
            Metadata_Expired (expired_hash_helpers 3) (Metadata_Decode (expired_hash_helpers 3) ''meta'')"
    by (simp add: expired_hash_helpers_def Expired_at_def)
  from C9_empty_before_expired [where h = "expired_hash_helpers 0" and enc = "''meta''" and db = empty_store
         and key = "''k''" and snk = "(''buf'', migrator0, [])"] e0
  have 1: "MigrateOneKey (expired_hash_helpers 0) empty_store ''k'' ''meta'' (''buf'', migrator0, [])
     = (Inr kUnderlyingStructEmpty, (''buf'', migrator0, []))"
    by blast
  from C9_empty_before_expired [where h = "expired_hash_helpers 3" and enc = "''meta''" and db = empty_store
         and key = "''k''" and snk = "(''buf'', migrator0, [])"] e3
  have 2: "MigrateOneKey (expired_hash_helpers 3) empty_store ''k'' ''meta'' (''buf'', migrator0, [])
     = (Inr kExpired, (''buf'', migrator0, []))"
    by blast
  from e0 1 2 show ?thesis by simp
qed

subsection \<open>Claims on the WAL tailer\<close>

text \<open>
  C2. SyncWALBeforeForbiddingSlot tails the WAL in at most 10 rounds, whatever the write
  load: the number of rounds it reports is at most 10, and its result depends on what the
  store answers in rounds 0 to 9 only. In a round below 10 it reads the latest sequence
  L; if L - wal\_begin\_seq is at most seq\_gap\_limit it returns OK at once; otherwise, when
  the WAL iterator opens and the tail up to L succeeds, it sets wal\_begin\_seq to L and
  goes to the next round. At round 10 it returns OK without reading the store, whatever
  the gap. The loop is a total function (its termination is proved with its definition,
  as is that of the tail it calls, which reads the batches of one iterator), so the call
  returns under any write load.
\<close>

theorem C2_phase_A_bounded:
  "(case SyncWALBeforeForbiddingSlot h wal m net of (s, rounds, m', net') \<Rightarrow> rounds \<le> 10) \<and>
   ((\<forall>i < 10. wal i = wal' i) \<longrightarrow>
       SyncWALBeforeForbiddingSlot h wal m net = SyncWALBeforeForbiddingSlot h wal' m net) \<and>
   (count < 10 \<and> latest_seq (wal count) - wal_begin_seq m \<le> word_of_int (seq_gap_limit m) \<longrightarrow>
       before_loop h wal count m net = (Status_OK, count, m, net)) \<and>
   (count < 10 \<and> \<not> latest_seq (wal count) - wal_begin_seq m \<le> word_of_int (seq_gap_limit m)
      \<and> wal_iter (wal count) = Inr iter
      \<and> MigrateIncrementData h iter (latest_seq (wal count)) m net = (Status_OK, m1, net1) \<longrightarrow>
       before_loop h wal count m net =
         before_loop h wal (count + 1) (m1\<lparr>wal_begin_seq := latest_seq (wal count)\<rparr>) net1) \<and>
   before_loop h wal 10 m net = (Status_OK, 10, m, net)"
proof -
  have 1: "case SyncWALBeforeForbiddingSlot h wal m net of (s, rounds, m', net') \<Rightarrow> rounds \<le> 10"
    using before_loop_count [of h wal 0 m net]
    by (auto simp add: SyncWALBeforeForbiddingSlot_def kMaxLoopTimes_def split: prod.splits)
  have 2: "(\<forall>i < 10. wal i = wal' i) \<longrightarrow>
       SyncWALBeforeForbiddingSlot h wal m net = SyncWALBeforeForbiddingSlot h wal' m net"
    using before_loop_cong [of wal wal' h 0 m net]
    by (simp add: SyncWALBeforeForbiddingSlot_def kMaxLoopTimes_def)
  have 3: "before_loop h wal 10 m net = (Status_OK, 10, m, net)"
    by (subst before_loop.simps) (simp add: kMaxLoopTimes_def)
  have 4: "count < 10 \<and> latest_seq (wal count) - wal_begin_seq m \<le> word_of_int (seq_gap_limit m) \<longrightarrow>
       before_loop h wal count m net = (Status_OK, count, m, net)"
    by (subst before_loop.simps) (simp add: kMaxLoopTimes_def Let_def)
  have 5: "count < 10 \<and> \<not> latest_seq (wal count) - wal_begin_seq m \<le> word_of_int (seq_gap_limit m)
      \<and> wal_iter (wal count) = Inr iter
      \<and> MigrateIncrementData h iter (latest_seq (wal count)) m net = (Status_OK, m1, net1) \<longrightarrow>
       before_loop h wal count m net =
         before_loop h wal (count + 1) (m1\<lparr>wal_begin_seq := latest_seq (wal count)\<rparr>) net1"
    by (subst before_loop.simps) (simp add: kMaxLoopTimes_def Let_def)
  from 1 2 3 4 5 show ?thesis by blast
qed

text \<open>
  C2's theorem under the write storm: every one of the 10 rounds finds a gap of 20000
  above the limit of 10000 and tails it; the call then returns OK with wal\_begin\_seq at
  200000, although the store is again 20000 ahead. A quiet first round returns at once.
\<close>

theorem C2_phase_A_bounded_witness:
  "SyncWALBeforeForbiddingSlot plain_helpers storm migrator0 []
     = (Status_OK, 10, migrator0\<lparr>wal_begin_seq := 200000\<rparr>, []) \<and>
   \<not> latest_seq (storm 10) - 200000 \<le> (word_of_int 10000 :: 64 word) \<and>
   before_loop plain_helpers (\<lambda>i. quiet_round) 0 migrator0 [] = (Status_OK, 0, migrator0, [])"
proof -
  have run: "SyncWALBeforeForbiddingSlot plain_helpers storm migrator0 []
     = (Status_OK, 10, migrator0\<lparr>wal_begin_seq := 200000\<rparr>, [])"
    by (simp add: SyncWALBeforeForbiddingSlot_def before_loop.simps kMaxLoopTimes_def storm_def
        migrator0_eq MigrateIncrementData_def GenerateCmdsFromBatch_def
        SendCmdsPipelineIfNeed_def Let_def)
  have gap: "\<not> latest_seq (storm 10) - 200000 \<le> (word_of_int 10000 :: 64 word)"
    by (simp add: storm_def)
  have quiet: "(0::nat) < 10 \<and> latest_seq ((\<lambda>i. quiet_round) (0::nat)) - wal_begin_seq migrator0
                  \<le> word_of_int (seq_gap_limit migrator0)"
    by (simp add: quiet_round_def migrator0_eq)
  from C2_phase_A_bounded [where h = plain_helpers and wal = "\<lambda>i. quiet_round" and count = 0
         and m = migrator0 and net = "[]"] quiet
  have "before_loop plain_helpers (\<lambda>i. quiet_round) 0 migrator0 [] = (Status_OK, 0, migrator0, [])"
    by blast
  with run gap show ?thesis by simp
qed

subsection \<open>Claims on the batching of complex keys\<close>

text \<open>
  C5, as the code has it. For a List, Set, Hash, SortedSet or SortedInt key, when
  MigrateComplexKey returns OK, what it has pushed to the destination (sent or still
  buffered) is, after what was pushed before the call, exactly the encoding of these
  commands in order: one command \<open>verb key args\<close> per group of the key's elements,
  the groups being cut in order with 16 elements each except for a last one holding the
  remaining \<open>n mod 16\<close> elements when that is not zero, each command starting again
  from \<open>(verb, key)\<close>; then one PEXPIREAT command exactly when the expire field is
  greater than 0. There are \<open>(n + 15) div 16\<close> element commands, and group \<open>i\<close>
  holds the elements from \<open>16 * i\<close> on. For the 33-element list of S3 these are three
  commands (elements 0 to 15, 16 to 31, and 32), not the four that S3 words.
\<close>

theorem C5_complex_key_commands:
  assumes ty: "md_type md \<in> batched_types"
      and ok: "MigrateComplexKey h db key md (c, m, net) = (Status_OK, (c', m', net'))"
  shows "wire c' m' = wire c m @ concat (map MultiBulkString
           (spec_commands (type_to_cmd (md_type md)) key
              (map (item_args h md) (key_elements h db key md)) (md_expire md))) \<and>
         length (groups_of 16 (map (item_args h md) (key_elements h db key md)))
           = (length (key_elements h db key md) + 15) div 16 \<and>
         (\<forall>i < length (groups_of 16 (map (item_args h md) (key_elements h db key md))).
            groups_of 16 (map (item_args h md) (key_elements h db key md)) ! i
              = take 16 (drop (i * 16) (map (item_args h md) (key_elements h db key md))))"
proof -
  let ?pre = "SubKeyPrefix h key (md_version md)"
  let ?base = "[type_to_cmd (md_type md), key]"
  let ?G = "\<lambda>g. MultiBulkString (?base @ concat g)"
  let ?elems = "map (item_args h md) (key_elements h db key md)"
  have "\<exists>u1 i1 c1 m1 net1. complex_loop h md ?pre (db_seek db ?pre) ?base 0 (c, m, net) = Inr (u1, i1, (c1, m1, net1))"
  proof (cases "complex_loop h md ?pre (db_seek db ?pre) ?base 0 (c, m, net)")
    case (Inl r)
    obtain s snk where r: "r = (s, snk)" by (cases r)
    from complex_loop_Inl [OF Inl [unfolded r]] obtain e where "s = Inl e" ..
    with MigrateComplexKey_loop_failed [OF Inl] ok r show ?thesis by simp
  next
    case (Inr r)
    then show ?thesis by (cases r) auto
  qed
  then obtain u1 i1 c1 m1 net1 where
    loop: "complex_loop h md ?pre (db_seek db ?pre) ?base 0 (c, m, net) = Inr (u1, i1, (c1, m1, net1))"
    by blast
  then have start: "complex_loop h md ?pre (db_seek db ?pre) (?base @ concat [])
            (int (length ([] :: string list list))) (c, m, net) = Inr (u1, i1, (c1, m1, net1))"
    by simp
  have len: "length ?base = 2" by simp
  have lt: "length ([] :: string list list) < 16" by simp
  from complex_loop_wire [OF ty len start lt] obtain pend' where
    p: "u1 = ?base @ concat pend'" "i1 = int (length pend')" "length pend' < 16"
       "wire c1 m1 @ concat (map ?G (groups_of 16 pend')) = wire c m @ concat (map ?G (groups_of 16 ?elems))"
    by (elim exE conjE) (simp add: key_elements_def)
  have tail: "concat (map ?G (groups_of 16 pend')) =
     (if i1 mod kMaxItemsInCommand \<noteq> 0 then MultiBulkString u1 else [])"
  proof (cases "pend' = []")
    case True
    with p show ?thesis by simp
  next
    case False
    with p(3) have "groups_of 16 pend' = [pend']" by (simp add: groups_of_short)
    moreover from False p(2,3) have "i1 mod kMaxItemsInCommand \<noteq> 0"
      by (simp add: kMaxItemsInCommand_def)
    ultimately show ?thesis using p(1) by simp
  qed
  let ?c2 = "c1 @ (if i1 mod kMaxItemsInCommand \<noteq> 0 then MultiBulkString u1 else [])"
  let ?m2 = "if i1 mod kMaxItemsInCommand \<noteq> 0 then incr_pipeline m1 else m1"
  let ?x = "if md_expire md > 0 then MultiBulkString [''PEXPIREAT'', key, dec_nat (unat (md_expire md))] else []"
  let ?m3 = "if md_expire md > 0 then incr_pipeline ?m2 else ?m2"
  note mk = MigrateComplexKey_after_loop [OF loop]
  obtain s2 snk2 where s2: "SendCmdsPipelineIfNeed (ParseInt_uint64 h) (?c2 @ ?x) False ?m3 net1 = (s2, snk2)"
    by (cases "SendCmdsPipelineIfNeed (ParseInt_uint64 h) (?c2 @ ?x) False ?m3 net1") auto
  from ok mk s2 obtain u where "s2 = Inr u" and "snk2 = (c', m', net')"
    by (cases s2) auto
  with s2 have "SendCmdsPipelineIfNeed (ParseInt_uint64 h) (?c2 @ ?x) False ?m3 net1 = (Inr u, (c', m', net'))"
    by simp
  from wire_flush [OF this] have "wire c' m' = wire (?c2 @ ?x) ?m3" .
  also have "\<dots> = wire c1 m1 @ concat (map ?G (groups_of 16 pend')) @ ?x"
    using tail by (simp add: wire_def incr_pipeline_def)
  also have "\<dots> = wire c m @ concat (map ?G (groups_of 16 ?elems)) @ ?x"
    using p(4) by (metis append.assoc)
  finally have w: "wire c' m' = wire c m @ concat (map MultiBulkString
           (spec_commands (type_to_cmd (md_type md)) key ?elems (md_expire md)))"
    by (simp add: spec_commands_def comp_def)
  have n: "length (groups_of 16 ?elems) = (length (key_elements h db key md) + 15) div 16"
    using length_groups_of [of 16 ?elems] by simp
  have g: "\<forall>i < length (groups_of 16 ?elems). groups_of 16 ?elems ! i = take 16 (drop (i * 16) ?elems)"
    using groups_of_nth [of 16 _ ?elems] by simp
  from w n g show ?thesis by blast
qed

text \<open>
  C5's theorem on the list of S3: 33 elements give the three commands \<open>S3_produced\<close>,
  with nothing sent yet (three commands are below the pipeline width of 16).
\<close>

lemma list33_run:
  "MigrateComplexKey plain_helpers list33_store ''l'' list33_md ([], migrator0, [])
     = (Status_OK, (concat (map MultiBulkString S3_produced), migrator0\<lparr>current_pipeline_size := 3\<rparr>, []))"
  by code_simp

lemma list33_spec:
  "spec_commands (type_to_cmd (md_type list33_md)) ''l''
     (map (item_args plain_helpers list33_md) (key_elements plain_helpers list33_store ''l'' list33_md))
     (md_expire list33_md) = S3_produced"
  by code_simp

theorem C5_complex_key_commands_witness:
  "md_type list33_md \<in> batched_types \<and>
   MigrateComplexKey plain_helpers list33_store ''l'' list33_md ([], migrator0, [])
     = (Status_OK, (concat (map MultiBulkString S3_produced), migrator0\<lparr>current_pipeline_size := 3\<rparr>, [])) \<and>
   wire (concat (map MultiBulkString S3_produced)) (migrator0\<lparr>current_pipeline_size := 3\<rparr>)
     = wire [] migrator0 @ concat (map MultiBulkString S3_produced) \<and>
   length (groups_of 16 (map (item_args plain_helpers list33_md)
             (key_elements plain_helpers list33_store ''l'' list33_md))) = 3"
proof -
  have ty: "md_type list33_md \<in> batched_types"
    by (simp add: list33_md_def batched_types_def)
  have n: "length (key_elements plain_helpers list33_store ''l'' list33_md) = 33"
    by code_simp
  from C5_complex_key_commands [OF ty list33_run] list33_spec n ty list33_run
  show ?thesis by simp
qed

text \<open>
  C5 as stated fails in its last sentence: the bytes the code produces for the 33-element
  list are those of three commands, and differ from the encoding of the four commands
  of S3 (which repeats the first group).
\<close>

theorem C5_S3_counterexample:
  "fst (snd (MigrateComplexKey plain_helpers list33_store ''l'' list33_md ([], migrator0, [])))
     = concat (map MultiBulkString S3_produced) \<and>
   fst (snd (MigrateComplexKey plain_helpers list33_store ''l'' list33_md ([], migrator0, [])))
     \<noteq> concat (map MultiBulkString (S3_described ''rpush''))"
proof -
  have "concat (map MultiBulkString S3_produced) \<noteq> concat (map MultiBulkString (S3_described ''rpush''))"
    by code_simp
  with list33_run show ?thesis by simp
qed

end
